theory Spec2Isabelle
  imports Main "HOL-Library.AList"
begin

section \<open>Strings, paths and JavaScript objects\<close>

text \<open>
  Strings are byte strings: a character outside ASCII is written as its UTF-8 bytes, the
  encoding in which the scripts write files and console output. Paths are lists of
  components, already resolved against the working directory; the components are taken to
  be free of whitespace and shell metacharacters, so that the interpolation of a path into
  the \<^verbatim>\<open>cp\<close> command line denotes that path.
\<close>

type_synonym path = "string list"

fun strip_prefix :: "'a list \<Rightarrow> 'a list \<Rightarrow> 'a list option" where
  "strip_prefix [] ys = Some ys"
| "strip_prefix (x # xs) [] = None"
| "strip_prefix (x # xs) (y # ys) = (if x = y then strip_prefix xs ys else None)"

text \<open>\<^verbatim>\<open>String.prototype.split\<close> with a one-character separator.\<close>

fun split_on :: "char \<Rightarrow> string \<Rightarrow> string list" where
  "split_on c [] = [[]]"
| "split_on c (x # xs) =
     (if x = c then [] # split_on c xs
      else (case split_on c xs of [] \<Rightarrow> [[x]] | w # ws \<Rightarrow> (x # w) # ws))"

text \<open>\<^verbatim>\<open>Array.prototype.join\<close>.\<close>

fun join :: "string \<Rightarrow> string list \<Rightarrow> string" where
  "join sep [] = []"
| "join sep [x] = x"
| "join sep (x # y # ys) = x @ sep @ join sep (y # ys)"

text \<open>
  \<^verbatim>\<open>path.join(base, ...segments)\<close>: each segment is split at the slashes, empty and
  \<^verbatim>\<open>.\<close> components vanish and \<^verbatim>\<open>..\<close> steps to the parent.
\<close>

definition path_step :: "path \<Rightarrow> string \<Rightarrow> path" where
  "path_step acc s =
     (if s = [] \<or> s = ''.'' then acc else if s = ''..'' then butlast acc else acc @ [s])"

definition path_join :: "path \<Rightarrow> string list \<Rightarrow> path" where
  "path_join base segs = foldl path_step base (concat (map (split_on CHR ''/'') segs))"

text \<open>\<^verbatim>\<open>path.basename\<close>: the last non-empty component, the empty string if there is none.\<close>

definition basename :: "string \<Rightarrow> string" where
  "basename s =
     (case rev (filter (\<lambda>c. c \<noteq> []) (split_on CHR ''/'' s)) of [] \<Rightarrow> [] | b # _ \<Rightarrow> b)"

text \<open>Case conversion, on the ASCII letters.\<close>

definition lower_letters :: string where
  "lower_letters = ''abcdefghijklmnopqrstuvwxyz''"

definition upper_letters :: string where
  "upper_letters = ''ABCDEFGHIJKLMNOPQRSTUVWXYZ''"

definition upper_char :: "char \<Rightarrow> char" where
  "upper_char c = (case map_of (zip lower_letters upper_letters) c of Some u \<Rightarrow> u | None \<Rightarrow> c)"

definition lower_char :: "char \<Rightarrow> char" where
  "lower_char c = (case map_of (zip upper_letters lower_letters) c of Some l \<Rightarrow> l | None \<Rightarrow> c)"

definition toLowerCase :: "string \<Rightarrow> string" where
  "toLowerCase s = map lower_char s"

text \<open>\<^verbatim>\<open>s.charAt(0).toUpperCase() + s.slice(1)\<close>.\<close>

definition capitalize :: "string \<Rightarrow> string" where
  "capitalize s = (case s of [] \<Rightarrow> [] | c # cs \<Rightarrow> upper_char c # cs)"

text \<open>\<^verbatim>\<open>String.prototype.includes\<close>.\<close>

fun includes_str :: "string \<Rightarrow> string \<Rightarrow> bool" where
  "includes_str [] needle = (needle = [])"
| "includes_str (c # cs) needle = (strip_prefix needle (c # cs) \<noteq> None \<or> includes_str cs needle)"

text \<open>
  A property read \<^verbatim>\<open>obj[key]\<close> on an object literal finds the object's own
  properties and, failing that, the properties every object inherits from
  \<^verbatim>\<open>Object.prototype\<close>. The inherited values are functions, or the prototype object
  itself: none of them is falsy and none of them is a string.
\<close>

definition OBJECT_PROTOTYPE :: "string list" where
  "OBJECT_PROTOTYPE =
     [''constructor'', ''__defineGetter__'', ''__defineSetter__'', ''hasOwnProperty'',
      ''__lookupGetter__'', ''__lookupSetter__'', ''isPrototypeOf'', ''propertyIsEnumerable'',
      ''toString'', ''valueOf'', ''__proto__'', ''toLocaleString'']"

datatype 'a property = Own 'a | Inherited | Undefined

definition js_get :: "(string \<times> 'a) list \<Rightarrow> string \<Rightarrow> 'a property" where
  "js_get obj k =
     (case map_of obj k of
        Some v \<Rightarrow> Own v
      | None \<Rightarrow> if k \<in> set OBJECT_PROTOTYPE then Inherited else Undefined)"

text \<open>\<^verbatim>\<open>Object.keys\<close>: the own keys, in insertion order.\<close>

definition Object_keys :: "(string \<times> 'a) list \<Rightarrow> string list" where
  "Object_keys obj = map fst obj"

section \<open>File system, console and process\<close>

datatype node = Dir | File string

type_synonym fs = "(path \<times> node) list"

datatype stream = Stdout | Stderr

record world =
  files :: fs
  console :: "(stream \<times> string) list"

datatype error =
    ENOENT path
  | ENOTDIR path
  | EISDIR path
  | EEXIST path
  | CommandFailed string
  | SyntaxError
  | TypeError string

text \<open>
  A call returns, ends the process through \<^verbatim>\<open>process.exit\<close>, or throws; nothing in
  the scripts catches an exception, so a throw ends the process with status 1.
\<close>

datatype 'a result = Ok 'a | Exit nat | Throw error

type_synonym 'a io = "world \<Rightarrow> 'a result \<times> world"

definition bind :: "'a io \<Rightarrow> ('a \<Rightarrow> 'b io) \<Rightarrow> 'b io" where
  "bind m f = (\<lambda>w. case m w of
                     (Ok a, w') \<Rightarrow> f a w'
                   | (Exit n, w') \<Rightarrow> (Exit n, w')
                   | (Throw e, w') \<Rightarrow> (Throw e, w'))"

definition seq :: "unit io \<Rightarrow> 'b io \<Rightarrow> 'b io" where
  "seq m n = bind m (\<lambda>_. n)"

definition return :: "'a \<Rightarrow> 'a io" where
  "return a = (\<lambda>w. (Ok a, w))"

definition throw :: "error \<Rightarrow> 'a io" where
  "throw e = (\<lambda>w. (Throw e, w))"

definition process_exit :: "nat \<Rightarrow> 'a io" where
  "process_exit n = (\<lambda>w. (Exit n, w))"


definition console_log :: "string \<Rightarrow> unit io" where
  "console_log s = (\<lambda>w. (Ok (), w\<lparr>console := console w @ [(Stdout, s)]\<rparr>))"

definition console_error :: "string \<Rightarrow> unit io" where
  "console_error s = (\<lambda>w. (Ok (), w\<lparr>console := console w @ [(Stderr, s)]\<rparr>))"

definition printed :: "stream \<Rightarrow> world \<Rightarrow> string list" where
  "printed st w = map snd (filter (\<lambda>l. fst l = st) (console w))"

subsection \<open>The \<^verbatim>\<open>fs\<close> module\<close>

definition node_at :: "fs \<Rightarrow> path \<Rightarrow> node option" where
  "node_at fs p = (if p = [] then Some Dir else map_of fs p)"

definition existsSync :: "fs \<Rightarrow> path \<Rightarrow> bool" where
  "existsSync fs p = (node_at fs p \<noteq> None)"

text \<open>
  \<^verbatim>\<open>fs.mkdirSync(p, { recursive: true })\<close> creates the missing directories from the
  root down; a file on the way makes the call throw with nothing created.
\<close>

fun mkdir_walk :: "path \<Rightarrow> path \<Rightarrow> fs \<Rightarrow> error + fs" where
  "mkdir_walk done [] fs = Inr fs"
| "mkdir_walk done (x # xs) fs =
     (case node_at fs (done @ [x]) of
        None \<Rightarrow> mkdir_walk (done @ [x]) xs (AList.update (done @ [x]) Dir fs)
      | Some Dir \<Rightarrow> mkdir_walk (done @ [x]) xs fs
      | Some (File _) \<Rightarrow> Inl (if xs = [] then EEXIST (done @ [x]) else ENOTDIR (done @ [x])))"

definition mkdirSync :: "path \<Rightarrow> unit io" where
  "mkdirSync p = (\<lambda>w. case mkdir_walk [] p (files w) of
                         Inl e \<Rightarrow> (Throw e, w)
                       | Inr fs' \<Rightarrow> (Ok (), w\<lparr>files := fs'\<rparr>))"

text \<open>Writing a file needs its directory; a directory is never overwritten by a file.\<close>

definition write_file :: "path \<Rightarrow> string \<Rightarrow> unit io" where
  "write_file p s = (\<lambda>w.
     case node_at (files w) (butlast p) of
       None \<Rightarrow> (Throw (ENOENT p), w)
     | Some (File _) \<Rightarrow> (Throw (ENOTDIR p), w)
     | Some Dir \<Rightarrow>
         (case node_at (files w) p of
            Some Dir \<Rightarrow> (Throw (EISDIR p), w)
          | _ \<Rightarrow> (Ok (), w\<lparr>files := AList.update p (File s) (files w)\<rparr>)))"

definition writeFileSync :: "path \<Rightarrow> string \<Rightarrow> unit io" where
  "writeFileSync p s = write_file p s"

definition readFileSync :: "path \<Rightarrow> string io" where
  "readFileSync p = (\<lambda>w.
     case node_at (files w) p of
       None \<Rightarrow> (Throw (ENOENT p), w)
     | Some Dir \<Rightarrow> (Throw (EISDIR p), w)
     | Some (File s) \<Rightarrow> (Ok s, w))"

text \<open>
  \<^verbatim>\<open>fs.copyFileSync\<close> opens the source, then opens the destination for writing, which
  creates or empties it as writing the empty string does, and then copies the content. A
  directory can be opened as a source but not read: the copy fails, and a copy that fails
  after the destination was opened removes the destination.
\<close>

definition copyFileSync :: "path \<Rightarrow> path \<Rightarrow> unit io" where
  "copyFileSync src dest = (\<lambda>w.
     case node_at (files w) src of
       None \<Rightarrow> (Throw (ENOENT src), w)
     | Some (File s) \<Rightarrow> write_file dest s w
     | Some Dir \<Rightarrow>
         (case write_file dest [] w of
            (Ok _, _) \<Rightarrow> (Throw (EISDIR src), w\<lparr>files := AList.delete dest (files w)\<rparr>)
          | failed \<Rightarrow> failed))"

subsection \<open>The \<^verbatim>\<open>cp -r\<close> command\<close>

text \<open>
  The shell pattern \<^verbatim>\<open>dir/*\<close> matches the entries of \<^verbatim>\<open>dir\<close> whose name does not
  start with a dot. When \<^verbatim>\<open>dir\<close> is missing or has no such entry the pattern
  stays as it is, and \<^verbatim>\<open>cp\<close> fails on a name that does not exist.
\<close>

definition hidden :: "string \<Rightarrow> bool" where
  "hidden e = (case e of [] \<Rightarrow> False | c # _ \<Rightarrow> c = CHR ''.'')"

definition glob_star :: "fs \<Rightarrow> path \<Rightarrow> string list" where
  "glob_star fs d =
     (case node_at fs d of
        Some Dir \<Rightarrow>
          concat (map (\<lambda>(p, n). case strip_prefix d p of
                                  Some [e] \<Rightarrow> if hidden e then [] else [e]
                                | _ \<Rightarrow> []) fs)
      | _ \<Rightarrow> [])"

text \<open>
  Copying the tree at \<open>s\<close> to \<open>t\<close>. The entry at the relative path \<open>q\<close> is reached when
  every directory above it could be entered: it is a directory in the source and no file
  stands in its place in the target. A reached entry is written unless a file would
  replace a directory or a directory a file; then \<^verbatim>\<open>cp\<close> reports the entry, goes on
  with the others and fails at the end. It also fails when the target lies inside the
  source. The source is read as it was when the command started, which is what
  \<^verbatim>\<open>cp\<close> does whenever the target lies outside the source.
\<close>

definition descend_ok :: "fs \<Rightarrow> path \<Rightarrow> path \<Rightarrow> path \<Rightarrow> bool" where
  "descend_ok fs s t q =
     list_all (\<lambda>k. node_at fs (s @ take k q) = Some Dir \<and>
                    (case node_at fs (t @ take k q) of Some (File _) \<Rightarrow> False | _ \<Rightarrow> True))
              [0..<length q]"

definition write_ok :: "node \<Rightarrow> node option \<Rightarrow> bool" where
  "write_ok n old =
     (case (n, old) of
        (Dir, Some (File _)) \<Rightarrow> False
      | (File _, Some Dir) \<Rightarrow> False
      | _ \<Rightarrow> True)"

definition reached :: "fs \<Rightarrow> path \<Rightarrow> path \<Rightarrow> (path \<times> node) list" where
  "reached fs s t =
     concat (map (\<lambda>(p, n). case strip_prefix s p of
                             Some q \<Rightarrow> if map_of fs p = Some n \<and> descend_ok fs s t q
                                       then [(q, n)] else []
                           | None \<Rightarrow> []) fs)"

definition cp_tree :: "fs \<Rightarrow> path \<Rightarrow> path \<Rightarrow> bool \<times> (path \<times> node) list" where
  "cp_tree fs s t =
     (let rs = reached fs s t
      in (strip_prefix s t = None \<and> list_all (\<lambda>(q, n). write_ok n (node_at fs (t @ q))) rs,
          map (\<lambda>(q, n). (t @ q, n)) (filter (\<lambda>(q, n). write_ok n (node_at fs (t @ q))) rs)))"

definition execSync :: "(fs \<Rightarrow> bool \<times> fs) \<Rightarrow> string \<Rightarrow> unit io" where
  "execSync command name = (\<lambda>w.
     case command (files w) of
       (True, fs') \<Rightarrow> (Ok (), w\<lparr>files := fs'\<rparr>)
     | (False, fs') \<Rightarrow> (Throw (CommandFailed name), w\<lparr>files := fs'\<rparr>))"

text \<open>\<^verbatim>\<open>cp -r ${src}/* ${dest}/\<close>\<close>

definition cp_r_glob :: "path \<Rightarrow> path \<Rightarrow> fs \<Rightarrow> bool \<times> fs" where
  "cp_r_glob src dest fs =
     (let es = glob_star fs src
      in if es = [] \<or> node_at fs dest \<noteq> Some Dir then (False, fs)
         else (let rs = map (\<lambda>e. cp_tree fs (src @ [e]) (dest @ [e])) es
               in (list_all fst rs, AList.merge fs (concat (map snd rs)))))"

text \<open>
  \<^verbatim>\<open>cp -r ${src} ${dest}\<close>: into \<open>dest\<close> under the source's name when \<open>dest\<close> is a
  directory, as \<open>dest\<close> itself otherwise.
\<close>

definition cp_r :: "path \<Rightarrow> path \<Rightarrow> fs \<Rightarrow> bool \<times> fs" where
  "cp_r src dest fs =
     (let target = (if node_at fs dest = Some Dir \<and> src \<noteq> [] then dest @ [last src] else dest)
      in if map_of fs src = None \<or> node_at fs (butlast target) \<noteq> Some Dir then (False, fs)
         else (let r = cp_tree fs src target in (fst r, AList.merge fs (snd r))))"

subsection \<open>JSON\<close>

text \<open>
  \<^verbatim>\<open>JSON.parse\<close> and \<^verbatim>\<open>JSON.stringify\<close> belong to the language, not to the
  scripts: they are parameters of the model, together with the directory above the
  scripts' own (\<^verbatim>\<open>path.join(__dirname, '..')\<close>). A parse that throws is \<open>None\<close>.
\<close>

datatype json =
    JNull
  | JBool bool
  | JNum int
  | JStr string
  | JArr "json list"
  | JObj "(string \<times> json) list"

record env =
  root :: path
  JSON_parse :: "string \<Rightarrow> json option"
  JSON_stringify :: "json \<Rightarrow> string"

text \<open>
  \<^verbatim>\<open>value.key = v\<close> in a script that is not in strict mode: an object gets or
  replaces the property (a new key goes last); on \<^verbatim>\<open>null\<close> it throws; on a
  boolean, number or string it does nothing; on an array it sets a property that
  \<^verbatim>\<open>JSON.stringify\<close> does not write.
\<close>

definition set_property :: "string \<Rightarrow> json \<Rightarrow> json \<Rightarrow> error + json" where
  "set_property k v j =
     (case j of
        JNull \<Rightarrow> Inl (TypeError ''Cannot set properties of null'')
      | JObj kvs \<Rightarrow> Inr (JObj (AList.update k v kvs))
      | _ \<Rightarrow> Inr j)"

definition get_property :: "string \<Rightarrow> json \<Rightarrow> json option" where
  "get_property k j = (case j of JObj kvs \<Rightarrow> map_of kvs k | _ \<Rightarrow> None)"

section \<open>Example generator: \<^verbatim>\<open>scripts/create-fhevm-example.js\<close>\<close>

record example_config =
  ex_contract :: string
  ex_test :: string
  ex_description :: string
  ex_category :: string

definition EXAMPLES_MAP :: "(string \<times> example_config) list" where
  "EXAMPLES_MAP =
     [(''blind-auction'',
       \<lparr>ex_contract = ''auctions/BlindAuction.sol'',
        ex_test = ''auctions/BlindAuction.ts'',
        ex_description = ''Sealed-bid auction with encrypted bids'',
        ex_category = ''auctions''\<rparr>),
      (''fhe-counter'',
       \<lparr>ex_contract = ''basic/FHECounter.sol'',
        ex_test = ''basic/FHECounter.ts'',
        ex_description = ''Simple encrypted counter demonstrating FHE basics'',
        ex_category = ''basic''\<rparr>)]"

definition generateReadme :: "string \<Rightarrow> example_config \<Rightarrow> string" where
  "generateReadme exampleName config =
     ''# '' @ (capitalize exampleName) @ '' - FHEVM Example\<newline>\<newline>'' @
     (ex_description config) @ ''\<newline>\<newline>## Overview\<newline>\<newline>'' @
     ''This example demonstrates '' @ (toLowerCase (ex_description config)) @
     '' using FHEVM (Fully Homomorphic Encryption Virtual Machine) by Zama.\<newline>'' @
     ''\<newline>## Quick Start\<newline>\<newline>```bash\<newline>'' @
     ''# Install dependencies\<newline>npm install\<newline>\<newline>'' @
     ''# Compile contracts\<newline>npm run compile\<newline>\<newline>'' @
     ''# Run tests\<newline>npm run test\<newline>\<newline>'' @
     ''# Deploy (local)\<newline>npm run deploy:local\<newline>```\<newline>'' @
     ''\<newline>## Key Concepts\<newline>\<newline>'' @
     ''This example showcases:\<newline>'' @
     ''- Encrypted data handling with FHEVM\<newline>'' @
     ''- Permission management with FHE.allow() and FHE.allowThis()\<newline>- '' @
     (if ex_category config = ''auctions'' then ''Confidential bidding mechanisms''
      else ''Basic FHE operations'') @
     ''\<newline>\<newline>## Files\<newline>\<newline>- `contracts/'' @
     (basename (ex_contract config)) @ ''` - Main contract implementation\<newline>- `test/'' @
     (basename (ex_test config)) @ ''` - Comprehensive test suite\<newline>'' @
     ''- `deploy/` - Deployment scripts\<newline>\<newline>## Resources\<newline>'' @
     ''\<newline>- [FHEVM Documentation](https://docs.zama.ai/fhevm)\<newline>'' @
     ''- [Zama Protocol Examples](https://docs.zama.org/protocol/examples)\<newline>'' @
     ''- [GitHub Repository](https://github.com/zama-ai/fhevm)\<newline>\<newline>'' @
     ''## License\<newline>\<newline>BSD-3-Clause-Clear\<newline>''"

definition FIXED_KEYWORDS :: "string list" where
  "FIXED_KEYWORDS = [''fhevm'', ''zama'', ''fhe'', ''privacy'', ''blockchain'']"

definition rewrite_manifest :: "env \<Rightarrow> path \<Rightarrow> string \<Rightarrow> string \<Rightarrow> string list \<Rightarrow> unit io" where
  "rewrite_manifest env packageJsonPath name descr keywords =
     bind (readFileSync packageJsonPath) (\<lambda>text.
       case JSON_parse env text of
         None \<Rightarrow> throw SyntaxError
       | Some packageJson \<Rightarrow>
           (case set_property ''name'' (JStr name) packageJson of
              Inl e \<Rightarrow> throw e
            | Inr j1 \<Rightarrow>
                (case set_property ''description'' (JStr descr) j1 of
                   Inl e \<Rightarrow> throw e
                 | Inr j2 \<Rightarrow>
                     (case set_property ''keywords'' (JArr (map JStr keywords)) j2 of
                        Inl e \<Rightarrow> throw e
                      | Inr j3 \<Rightarrow> writeFileSync packageJsonPath (JSON_stringify env j3)))))"

definition updatePackageJson :: "env \<Rightarrow> path \<Rightarrow> string \<Rightarrow> example_config \<Rightarrow> unit io" where
  "updatePackageJson env outputDir exampleName config =
     rewrite_manifest env (path_join outputDir [''package.json''])
       (''fhevm-'' @ exampleName)
       (ex_description config)
       (FIXED_KEYWORDS @ [ex_category config])"

definition emoji_cross :: string where "emoji_cross = [CHR 0xE2, CHR 0x9D, CHR 0x8C]"
definition emoji_check :: string where "emoji_check = [CHR 0xE2, CHR 0x9C, CHR 0x85]"
definition emoji_rocket :: string where "emoji_rocket = [CHR 0xF0, CHR 0x9F, CHR 0x9A, CHR 0x80]"
definition emoji_folder :: string where "emoji_folder = [CHR 0xF0, CHR 0x9F, CHR 0x93, CHR 0x81]"
definition emoji_page :: string where "emoji_page = [CHR 0xF0, CHR 0x9F, CHR 0x93, CHR 0x84]"
definition emoji_tube :: string where "emoji_tube = [CHR 0xF0, CHR 0x9F, CHR 0xA7, CHR 0xAA]"
definition quote :: string where "quote = [CHR 0x27]"

definition templateDir :: "env \<Rightarrow> path" where
  "templateDir env = path_join (root env) [''fhevm-hardhat-template'']"

definition ensure_dir :: "path \<Rightarrow> unit io" where
  "ensure_dir outputDir =
     (\<lambda>w. if existsSync (files w) outputDir then (Ok (), w) else mkdirSync outputDir w)"

definition copy_template :: "env \<Rightarrow> path \<Rightarrow> unit io" where
  "copy_template env outputDir =
     seq (console_log (emoji_folder @ '' Copying base template...''))
         (execSync (cp_r_glob (templateDir env) outputDir) ''cp -r'')"

text \<open>
  Both generators start in the same way: the banner, the output directory, the template.
\<close>

definition prepare_destination :: "env \<Rightarrow> string \<Rightarrow> path \<Rightarrow> unit io" where
  "prepare_destination env banner outputDir =
     seq (console_log banner)
    (seq (ensure_dir outputDir)
         (copy_template env outputDir))"

definition copy_if_exists :: "string \<Rightarrow> path \<Rightarrow> path \<Rightarrow> unit io" where
  "copy_if_exists message src dest =
     (\<lambda>w. if existsSync (files w) src
           then seq (console_log message) (copyFileSync src dest) w
           else (Ok (), w))"

text \<open>
  Lines 49 to 79 of \<^verbatim>\<open>createExample\<close>: the contract, the test, the README, the manifest
  and the closing messages.
\<close>

definition overlay_example :: "env \<Rightarrow> string \<Rightarrow> path \<Rightarrow> example_config \<Rightarrow> unit io" where
  "overlay_example env exampleName outputDir config =
     seq (copy_if_exists (emoji_page @ '' Copying contract: '' @ ex_contract config)
            (path_join (root env) [''contracts'', ex_contract config])
            (path_join outputDir [''contracts'', basename (ex_contract config)]))
    (seq (copy_if_exists (emoji_tube @ '' Copying test: '' @ ex_test config)
            (path_join (root env) [''test'', ex_test config])
            (path_join outputDir [''test'', basename (ex_test config)]))
    (seq (writeFileSync (path_join outputDir [''README.md''])
            (generateReadme exampleName config))
    (seq (updatePackageJson env outputDir exampleName config)
    (seq (console_log (emoji_check @ '' Example '' @ quote @ exampleName @ quote @
                       '' created successfully!''))
    (seq (console_log ''\<newline>Next steps:'')
    (seq (console_log (''  cd '' @ join ''/'' outputDir))
    (seq (console_log ''  npm install'')
    (seq (console_log ''  npm run compile'')
         (console_log ''  npm run test'')))))))))"

text \<open>
  With a name that \<^verbatim>\<open>EXAMPLES_MAP\<close> only inherits, \<^verbatim>\<open>config.contract\<close> is
  undefined and \<^verbatim>\<open>path.join\<close> throws on it, after the template has been copied.
\<close>

definition createExample :: "env \<Rightarrow> string \<Rightarrow> path \<Rightarrow> unit io" where
  "createExample env exampleName outputDir =
     (case js_get EXAMPLES_MAP exampleName of
        Undefined \<Rightarrow>
          seq (console_error (emoji_cross @ '' Example '' @ quote @ exampleName @ quote @ '' not found''))
         (seq (console_log (''Available examples: '' @ join '', '' (Object_keys EXAMPLES_MAP)))
              (process_exit 1))
      | found \<Rightarrow>
          seq (prepare_destination env
                 (emoji_rocket @ '' Creating '' @ exampleName @ '' example in '' @
                  join ''/'' outputDir) outputDir)
              (case found of
                 Own config \<Rightarrow> overlay_example env exampleName outputDir config
               | _ \<Rightarrow> throw (TypeError ''The path argument must be of type string'')))"

section \<open>Category generator: \<^verbatim>\<open>scripts/create-fhevm-category.js\<close>\<close>

record category_config =
  cat_description :: string
  cat_examples :: "string list"
  cat_contracts :: "string list"
  cat_tests :: "string list"

definition CATEGORIES :: "(string \<times> category_config) list" where
  "CATEGORIES =
     [(''auctions'',
       \<lparr>cat_description = ''Confidential auction mechanisms using FHEVM'',
        cat_examples = [''blind-auction''],
        cat_contracts = [''auctions/BlindAuction.sol''],
        cat_tests = [''auctions/BlindAuction.ts'']\<rparr>),
      (''basic'',
       \<lparr>cat_description = ''Fundamental FHE operations and patterns'',
        cat_examples = [''fhe-counter'', ''encrypt-single-value''],
        cat_contracts = [''basic/FHECounter.sol''],
        cat_tests = [''basic/FHECounter.ts'']\<rparr>)]"

text \<open>
  A value that a template literal interpolates: a string, or a value inherited from
  \<^verbatim>\<open>Object.prototype\<close> under the given name, which prints as a native function
  (the prototype object itself as \<^verbatim>\<open>[object Object]\<close>).
\<close>

datatype js_value = Str string | Proto string

definition to_string :: "js_value \<Rightarrow> string" where
  "to_string v =
     (case v of
        Str s \<Rightarrow> s
      | Proto k \<Rightarrow>
          if k = ''__proto__'' then ''[object Object]''
          else ''function '' @ (if k = ''constructor'' then ''Object'' else k) @
               ''() { [native code] }'')"

definition descriptions :: "(string \<times> string) list" where
  "descriptions =
     [(''blind-auction'', ''Sealed-bid auction with encrypted bids''),
      (''fhe-counter'', ''Simple encrypted counter demonstrating FHE basics''),
      (''encrypt-single-value'', ''Basic FHE encryption patterns'')]"

text \<open>\<^verbatim>\<open>descriptions[exampleName] || 'FHEVM example'\<close>: the empty string is falsy.\<close>

definition getExampleDescription :: "string \<Rightarrow> js_value" where
  "getExampleDescription exampleName =
     (case js_get descriptions exampleName of
        Own d \<Rightarrow> if d = [] then Str ''FHEVM example'' else Str d
      | Inherited \<Rightarrow> Proto exampleName
      | Undefined \<Rightarrow> Str ''FHEVM example'')"

definition box_tee :: string where "box_tee = [CHR 0xE2, CHR 0x94, CHR 0x9C]"
definition box_dash :: string where "box_dash = [CHR 0xE2, CHR 0x94, CHR 0x80]"
definition box_bar :: string where "box_bar = [CHR 0xE2, CHR 0x94, CHR 0x82]"
definition box_corner :: string where "box_corner = [CHR 0xE2, CHR 0x94, CHR 0x94]"
definition emoji_wrench :: string where "emoji_wrench = [CHR 0xF0, CHR 0x9F, CHR 0x94, CHR 0xA7]"
definition emoji_chart :: string where "emoji_chart = [CHR 0xF0, CHR 0x9F, CHR 0x93, CHR 0x8A]"

definition example_bullet :: "string \<Rightarrow> string" where
  "example_bullet example =
     ''- **'' @ example @ ''** - '' @ to_string (getExampleDescription example)"

definition tree_line :: "string \<Rightarrow> string" where
  "tree_line c = box_bar @ ''   '' @ box_tee @ box_dash @ box_dash @ '' '' @ basename c"

definition generateCategoryReadme :: "string \<Rightarrow> category_config \<Rightarrow> string" where
  "generateCategoryReadme categoryName config =
     ''# '' @ (capitalize categoryName) @ '' Examples - FHEVM\<newline>\<newline>'' @
     (cat_description config) @ ''\<newline>\<newline>## Overview\<newline>\<newline>'' @
     ''This project contains multiple FHEVM examples demonstrating '' @
     (toLowerCase (cat_description config)) @
     ''.\<newline>\<newline>## Examples Included\<newline>\<newline>'' @
     (join ''\<newline>'' (map example_bullet (cat_examples config))) @
     ''\<newline>\<newline>## Quick Start\<newline>\<newline>```bash\<newline>'' @
     ''# Install dependencies\<newline>npm install --legacy-peer-deps\<newline>'' @
     ''\<newline># Compile all contracts\<newline>npm run compile\<newline>'' @
     ''\<newline># Run all tests\<newline>npm run test\<newline>\<newline>'' @
     ''# Deploy all contracts (local)\<newline>npm run deploy:local\<newline>'' @
     ''```\<newline>\<newline>## Project Structure\<newline>\<newline>'' @ ''```\<newline>'' @
     categoryName @ ''-examples/\<newline>'' @ box_tee @
     box_dash @ box_dash @
     '' contracts/\<newline>'' @ (join ''\<newline>'' (map tree_line (cat_contracts config))) @
     ''\<newline>'' @ box_tee @ box_dash @
     box_dash @ '' test/\<newline>'' @
     (join ''\<newline>'' (map tree_line (cat_tests config))) @ ''\<newline>'' @
     box_bar @ ''   '' @ box_corner @
     box_dash @ box_dash @ '' utils/\<newline>'' @
     box_bar @ ''       '' @ box_corner @
     box_dash @ box_dash @
     '' fhevm.ts\<newline>'' @ box_tee @
     box_dash @ box_dash @ '' deploy/\<newline>'' @
     box_corner @ box_dash @
     box_dash @
     '' README.md\<newline>```\<newline>\<newline>## Key Concepts\<newline>'' @
     ''\<newline>This category demonstrates:\<newline>'' @
     ''- Encrypted data handling with FHEVM\<newline>'' @
     ''- Permission management with FHE.allow() and FHE.allowThis()\<newline>- '' @
     (if categoryName = ''auctions'' then ''Confidential bidding and auction mechanisms''
      else ''Basic FHE operations and patterns'') @
     ''\<newline>- Public decryption patterns\<newline>'' @
     ''- Common pitfalls and best practices\<newline>\<newline>'' @
     ''## Testing\<newline>\<newline>'' @
     ''Each example includes comprehensive tests showing:\<newline>- '' @
     emoji_check @ '' Correct usage patterns\<newline>- '' @
     emoji_cross @ '' Common mistakes and edge cases\<newline>- '' @
     emoji_wrench @ '' Permission handling\<newline>- '' @
     emoji_chart @
     '' Gas usage patterns\<newline>\<newline>## Resources\<newline>\<newline>'' @
     ''- [FHEVM Documentation](https://docs.zama.ai/fhevm)\<newline>'' @
     ''- [Zama Protocol Examples](https://docs.zama.org/protocol/examples)\<newline>'' @
     ''- [GitHub Repository](https://github.com/zama-ai/fhevm)\<newline>\<newline>'' @
     ''## License\<newline>\<newline>BSD-3-Clause-Clear\<newline>''"

definition updateCategoryPackageJson :: "env \<Rightarrow> path \<Rightarrow> string \<Rightarrow> category_config \<Rightarrow> unit io" where
  "updateCategoryPackageJson env outputDir categoryName config =
     rewrite_manifest env (path_join outputDir [''package.json''])
       (''fhevm-'' @ categoryName @ ''-examples'')
       (cat_description config)
       (FIXED_KEYWORDS @ [categoryName, ''examples''])"

text \<open>\<^verbatim>\<open>Array.prototype.forEach\<close> with a callback that may throw.\<close>

fun forEach :: "('a \<Rightarrow> unit io) \<Rightarrow> 'a list \<Rightarrow> unit io" where
  "forEach f [] = return ()"
| "forEach f (x # xs) = seq (f x) (forEach f xs)"

text \<open>The decimal digits of a number, as a template literal prints it.\<close>

fun show_digits :: "nat \<Rightarrow> nat \<Rightarrow> string" where
  "show_digits 0 n = []"
| "show_digits (Suc fuel) n =
     (if n < 10 then [''0123456789'' ! n]
      else show_digits fuel (n div 10) @ [''0123456789'' ! (n mod 10)])"

definition show_nat :: "nat \<Rightarrow> string" where
  "show_nat n = show_digits (Suc n) n"

definition copy_utils :: "env \<Rightarrow> path \<Rightarrow> unit io" where
  "copy_utils env outputDir =
     (\<lambda>w. if existsSync (files w) (path_join (root env) [''test'', ''utils''])
           then execSync (cp_r (path_join (root env) [''test'', ''utils''])
                               (path_join outputDir [''test'', ''utils''])) ''cp -r'' w
           else (Ok (), w))"

text \<open>
  Lines 49 to 92 of \<^verbatim>\<open>createCategory\<close>: the contracts, the tests, the shared test
  helpers, the README, the manifest and the closing messages.
\<close>

definition overlay_category :: "env \<Rightarrow> string \<Rightarrow> path \<Rightarrow> category_config \<Rightarrow> unit io" where
  "overlay_category env categoryName outputDir config =
     seq (console_log (emoji_page @ '' Copying '' @
            show_nat (length (cat_contracts config)) @ '' contracts...''))
    (seq (forEach (\<lambda>contractPath.
            copy_if_exists (''  - '' @ contractPath)
              (path_join (root env) [''contracts'', contractPath])
              (path_join outputDir [''contracts'', basename contractPath]))
            (cat_contracts config))
    (seq (console_log (emoji_tube @ '' Copying '' @
            show_nat (length (cat_tests config)) @ '' tests...''))
    (seq (forEach (\<lambda>testPath.
            copy_if_exists (''  - '' @ testPath)
              (path_join (root env) [''test'', testPath])
              (path_join outputDir [''test'', basename testPath]))
            (cat_tests config))
    (seq (copy_utils env outputDir)
    (seq (writeFileSync (path_join outputDir [''README.md''])
            (generateCategoryReadme categoryName config))
    (seq (updateCategoryPackageJson env outputDir categoryName config)
    (seq (console_log (emoji_check @ '' Category '' @ quote @ categoryName @ quote @
                       '' project created successfully!''))
    (seq (console_log ''\<newline>Next steps:'')
    (seq (console_log (''  cd '' @ join ''/'' outputDir))
    (seq (console_log ''  npm install --legacy-peer-deps'')
    (seq (console_log ''  npm run compile'')
         (console_log ''  npm run test''))))))))))))"

text \<open>
  With a name that \<^verbatim>\<open>CATEGORIES\<close> only inherits, \<^verbatim>\<open>config.contracts\<close> is
  undefined and reading its length throws, after the template has been copied.
\<close>

definition createCategory :: "env \<Rightarrow> string \<Rightarrow> path \<Rightarrow> unit io" where
  "createCategory env categoryName outputDir =
     (case js_get CATEGORIES categoryName of
        Undefined \<Rightarrow>
          seq (console_error (emoji_cross @ '' Category '' @ quote @ categoryName @ quote @ '' not found''))
         (seq (console_log (''Available categories: '' @ join '', '' (Object_keys CATEGORIES)))
              (process_exit 1))
      | found \<Rightarrow>
          seq (prepare_destination env
                 (emoji_rocket @ '' Creating '' @ categoryName @ '' category project in '' @
                  join ''/'' outputDir) outputDir)
              (case found of
                 Own config \<Rightarrow> overlay_category env categoryName outputDir config
               | _ \<Rightarrow> throw (TypeError ''Cannot read properties of undefined (reading length)'')))"

section \<open>Documentation generator: \<^verbatim>\<open>scripts/generate-docs.js\<close>\<close>

record docs_config =
  doc_title :: string
  doc_description :: string
  doc_category :: string
  doc_concepts :: "string list"

definition DOCS_CONFIG :: "(string \<times> docs_config) list" where
  "DOCS_CONFIG =
     [(''blind-auction'',
       \<lparr>doc_title = ''Blind Auction'',
        doc_description = ''Sealed-bid auction with encrypted bids using FHEVM'',
        doc_category = ''Advanced Examples'',
        doc_concepts = [''Encrypted bidding'', ''Access control'', ''Public decryption'',
                        ''Auction mechanics'']\<rparr>),
      (''fhe-counter'',
       \<lparr>doc_title = ''FHE Counter'',
        doc_description = ''Simple encrypted counter demonstrating basic FHE operations'',
        doc_category = ''Basic Examples'',
        doc_concepts = [''Encrypted state'', ''FHE arithmetic'', ''Permission management'']\<rparr>)]"

definition contractMap :: "(string \<times> string) list" where
  "contractMap =
     [(''blind-auction'', ''contracts/auctions/BlindAuction.sol''),
      (''fhe-counter'', ''contracts/basic/FHECounter.sol'')]"

definition testMap :: "(string \<times> string) list" where
  "testMap =
     [(''blind-auction'', ''test/auctions/BlindAuction.ts''),
      (''fhe-counter'', ''test/basic/FHECounter.ts'')]"

text \<open>
  \<^verbatim>\<open>path.join(__dirname, '..', map[exampleName] || '')\<close>: an inherited value is not a
  string, and \<^verbatim>\<open>path.join\<close> throws on it.
\<close>

definition mapped_path :: "env \<Rightarrow> (string \<times> string) list \<Rightarrow> string \<Rightarrow> error + path" where
  "mapped_path env table exampleName =
     (case js_get table exampleName of
        Own rel \<Rightarrow> Inr (path_join (root env) [rel])
      | Undefined \<Rightarrow> Inr (path_join (root env) [''''])
      | Inherited \<Rightarrow> Inl (TypeError ''The path argument must be of type string''))"

definition getContractPath :: "env \<Rightarrow> string \<Rightarrow> error + path" where
  "getContractPath env exampleName = mapped_path env contractMap exampleName"

definition getTestPath :: "env \<Rightarrow> string \<Rightarrow> error + path" where
  "getTestPath env exampleName = mapped_path env testMap exampleName"

definition concept_bullet :: "string \<Rightarrow> string" where
  "concept_bullet concept = ''- **'' @ concept @ ''**''"

definition read_if_exists :: "path \<Rightarrow> string io" where
  "read_if_exists p = (\<lambda>w. if existsSync (files w) p then readFileSync p w else (Ok [], w))"

definition render_doc :: "docs_config \<Rightarrow> string \<Rightarrow> string \<Rightarrow> string" where
  "render_doc config contractCode testCode =
     ''# '' @ (doc_title config) @ ''\<newline>\<newline>'' @ (doc_description config) @
     ''\<newline>\<newline>## Overview\<newline>\<newline>'' @ ''This example demonstrates '' @
     (toLowerCase (doc_description config)) @
     ''.\<newline>\<newline>## Key Concepts\<newline>\<newline>'' @
     (join ''\<newline>'' (map concept_bullet (doc_concepts config))) @
     ''\<newline>\<newline>## Contract Implementation\<newline>\<newline>'' @
     ''```solidity\<newline>'' @ contractCode @
     ''\<newline>```\<newline>\<newline>## Test Suite\<newline>\<newline>'' @
     ''The test suite demonstrates both correct usage and common pitfalls:\<newline>'' @
     ''\<newline>```typescript\<newline>'' @ testCode @
     ''\<newline>```\<newline>\<newline>## Usage\<newline>\<newline>'' @
     ''### Deploy the Contract\<newline>\<newline>```bash\<newline>'' @
     ''npm run deploy:local\<newline>```\<newline>\<newline>'' @
     ''### Run Tests\<newline>\<newline>```bash\<newline>npm run test\<newline>'' @
     ''```\<newline>\<newline>## Important Patterns\<newline>\<newline>### '' @
     emoji_check @ '' Correct Usage\<newline>\<newline>'' @
     ''- Always call `FHE.allowThis()` for contract permissions\<newline>'' @
     ''- Use `FHE.allow()` for user permissions\<newline>'' @
     ''- Match encryption signer with transaction sender\<newline>\<newline>### '' @
     emoji_cross @ '' Common Mistakes\<newline>\<newline>'' @
     ''- Forgetting `allowThis()` permissions\<newline>'' @
     ''- Mismatching encryption context\<newline>'' @
     ''- Using deprecated API functions\<newline>\<newline>## Resources\<newline>'' @
     ''\<newline>- [FHEVM Documentation](https://docs.zama.ai/fhevm)\<newline>'' @
     ''- [Zama Protocol Examples](https://docs.zama.org/protocol/examples)\<newline>'' @
     ''- [GitHub Repository](https://github.com/zama-ai/fhevm)\<newline>''"

definition generateMarkdownDoc :: "env \<Rightarrow> string \<Rightarrow> docs_config \<Rightarrow> string io" where
  "generateMarkdownDoc env exampleName config =
     (case getContractPath env exampleName of
        Inl e \<Rightarrow> throw e
      | Inr contractPath \<Rightarrow>
          (case getTestPath env exampleName of
             Inl e \<Rightarrow> throw e
           | Inr testPath \<Rightarrow>
               bind (read_if_exists contractPath) (\<lambda>contractCode.
               bind (read_if_exists testPath) (\<lambda>testCode.
               return (render_doc config contractCode testCode)))))"

definition summary_skeleton :: string where
  "summary_skeleton =
     ''# Summary\<newline>\<newline>## Introduction\<newline>\<newline>'' @
     ''* [Overview](README.md)\<newline>\<newline>## Examples\<newline>\<newline>''"

definition entryLine :: "string \<Rightarrow> docs_config \<Rightarrow> string" where
  "entryLine exampleName config = ''* ['' @ doc_title config @ '']('' @ exampleName @ ''.md)''"

definition emoji_books :: string where "emoji_books = [CHR 0xF0, CHR 0x9F, CHR 0x93, CHR 0x9A]"
definition emoji_memo :: string where "emoji_memo = [CHR 0xF0, CHR 0x9F, CHR 0x93, CHR 0x9D]"

definition updateSummary :: "path \<Rightarrow> string \<Rightarrow> docs_config \<Rightarrow> unit io" where
  "updateSummary outputDir exampleName config =
     bind (\<lambda>w. if existsSync (files w) (path_join outputDir [''SUMMARY.md''])
                then readFileSync (path_join outputDir [''SUMMARY.md'']) w
                else (Ok summary_skeleton, w))
          (\<lambda>summaryContent.
             seq (writeFileSync (path_join outputDir [''SUMMARY.md''])
                    (if includes_str summaryContent (entryLine exampleName config)
                     then summaryContent
                     else summaryContent @ entryLine exampleName config @ ''\<newline>''))
                 (console_log (emoji_memo @ '' Updated SUMMARY.md'')))"

text \<open>
  With a name that \<^verbatim>\<open>DOCS_CONFIG\<close> only inherits, the first thing
  \<^verbatim>\<open>generateMarkdownDoc\<close> does is \<^verbatim>\<open>getContractPath\<close>, which inherits the same
  name from its own table and throws.
\<close>

definition generateDocs :: "env \<Rightarrow> string \<Rightarrow> path \<Rightarrow> unit io" where
  "generateDocs env exampleName outputDir =
     (case js_get DOCS_CONFIG exampleName of
        Undefined \<Rightarrow>
          seq (console_error (emoji_cross @ '' Documentation config for '' @ quote @ exampleName @
                              quote @ '' not found''))
              (process_exit 1)
      | found \<Rightarrow>
          seq (console_log (emoji_books @ '' Generating documentation for '' @ exampleName))
         (seq (ensure_dir outputDir)
              (case found of
                 Own config \<Rightarrow>
                   bind (generateMarkdownDoc env exampleName config) (\<lambda>docContent.
                   seq (writeFileSync (path_join outputDir [exampleName @ ''.md'']) docContent)
                  (seq (console_log (emoji_check @ '' Documentation generated: '' @
                          join ''/'' (path_join outputDir [exampleName @ ''.md''])))
                       (updateSummary outputDir exampleName config)))
               | _ \<Rightarrow> throw (TypeError ''The path argument must be of type string''))))"

section \<open>A sample repository\<close>

text \<open>
  A small repository on which the generators can be run: the base template with its
  manifest and its three directories, and the counter example's contract and test. The
  sample codec knows the template's manifest and the manifests the generators write.
\<close>

definition file_text :: "fs \<Rightarrow> path \<Rightarrow> string option" where
  "file_text fs p = (case node_at fs p of Some (File s) \<Rightarrow> Some s | _ \<Rightarrow> None)"

definition sample_manifest :: json where
  "sample_manifest =
     JObj [(''name'', JStr ''fhevm-hardhat-template''),
           (''version'', JStr ''0.1.0''),
           (''keywords'', JArr [JStr ''template''])]"

definition counter_manifest :: json where
  "counter_manifest =
     JObj [(''name'', JStr ''fhevm-fhe-counter''),
           (''version'', JStr ''0.1.0''),
           (''keywords'', JArr (map JStr [''fhevm'', ''zama'', ''fhe'', ''privacy'',
                                          ''blockchain'', ''basic''])),
           (''description'', JStr ''Simple encrypted counter demonstrating FHE basics'')]"

definition basic_manifest :: json where
  "basic_manifest =
     JObj [(''name'', JStr ''fhevm-basic-examples''),
           (''version'', JStr ''0.1.0''),
           (''keywords'', JArr (map JStr [''fhevm'', ''zama'', ''fhe'', ''privacy'',
                                          ''blockchain'', ''basic'', ''examples''])),
           (''description'', JStr ''Fundamental FHE operations and patterns'')]"

definition sample_codec :: "(string \<times> json) list" where
  "sample_codec =
     [(''<template manifest>'', sample_manifest),
      (''<fhe-counter manifest>'', counter_manifest),
      (''<basic manifest>'', basic_manifest)]"

definition sample_stringify :: "json \<Rightarrow> string" where
  "sample_stringify j =
     (case filter (\<lambda>(s, d). d = j) sample_codec of (s, d) # _ \<Rightarrow> s | [] \<Rightarrow> ''<other>'')"

definition sample_env :: env where
  "sample_env =
     \<lparr>root = [''repo''], JSON_parse = map_of sample_codec, JSON_stringify = sample_stringify\<rparr>"

definition sample_files :: fs where
  "sample_files =
     [([''repo''], Dir),
      ([''repo'', ''fhevm-hardhat-template''], Dir),
      ([''repo'', ''fhevm-hardhat-template'', ''package.json''], File ''<template manifest>''),
      ([''repo'', ''fhevm-hardhat-template'', ''contracts''], Dir),
      ([''repo'', ''fhevm-hardhat-template'', ''test''], Dir),
      ([''repo'', ''fhevm-hardhat-template'', ''deploy''], Dir),
      ([''repo'', ''fhevm-hardhat-template'', ''deploy'', ''deploy.ts''], File ''export default func;''),
      ([''repo'', ''contracts''], Dir),
      ([''repo'', ''contracts'', ''basic''], Dir),
      ([''repo'', ''contracts'', ''basic'', ''FHECounter.sol''], File ''contract FHECounter {}''),
      ([''repo'', ''test''], Dir),
      ([''repo'', ''test'', ''basic''], Dir),
      ([''repo'', ''test'', ''basic'', ''FHECounter.ts''], File ''describe(FHECounter)'')]"

definition sample_world :: world where
  "sample_world = \<lparr>files = sample_files, console = []\<rparr>"

definition counter_example :: example_config where
  "counter_example =
     \<lparr>ex_contract = ''basic/FHECounter.sol'',
      ex_test = ''basic/FHECounter.ts'',
      ex_description = ''Simple encrypted counter demonstrating FHE basics'',
      ex_category = ''basic''\<rparr>"

definition basic_category :: category_config where
  "basic_category =
     \<lparr>cat_description = ''Fundamental FHE operations and patterns'',
      cat_examples = [''fhe-counter'', ''encrypt-single-value''],
      cat_contracts = [''basic/FHECounter.sol''],
      cat_tests = [''basic/FHECounter.ts'']\<rparr>"

text \<open>The same repository without its base template.\<close>

definition bare_world :: world where
  "bare_world =
     \<lparr>files = [([''repo''], Dir),
               ([''repo'', ''contracts''], Dir),
               ([''repo'', ''contracts'', ''basic''], Dir),
               ([''repo'', ''contracts'', ''basic'', ''FHECounter.sol''], File ''contract FHECounter {}'')],
      console = []\<rparr>"

definition auction_example :: example_config where
  "auction_example =
     \<lparr>ex_contract = ''auctions/BlindAuction.sol'',
      ex_test = ''auctions/BlindAuction.ts'',
      ex_description = ''Sealed-bid auction with encrypted bids'',
      ex_category = ''auctions''\<rparr>"






definition counter_doc :: docs_config where
  "counter_doc =
     \<lparr>doc_title = ''FHE Counter'',
      doc_description = ''Simple encrypted counter demonstrating basic FHE operations'',
      doc_category = ''Basic Examples'',
      doc_concepts = [''Encrypted state'', ''FHE arithmetic'', ''Permission management'']\<rparr>"

definition auction_doc :: docs_config where
  "auction_doc =
     \<lparr>doc_title = ''Blind Auction'',
      doc_description = ''Sealed-bid auction with encrypted bids using FHEVM'',
      doc_category = ''Advanced Examples'',
      doc_concepts = [''Encrypted bidding'', ''Access control'', ''Public decryption'',
                      ''Auction mechanics'']\<rparr>"

text \<open>
  The sample repository with an index that carries the counter's line twice, as a merge
  of two copies of the index can leave it, and with the index that a run for the
  auction has written.
\<close>

definition merged_index :: string where
  "merged_index =
     summary_skeleton @
     ''* [FHE Counter](fhe-counter.md)\<newline>'' @
     ''* [Blind Auction](blind-auction.md)\<newline>'' @
     ''* [FHE Counter](fhe-counter.md)\<newline>''"

definition merged_world :: world where
  "merged_world =
     \<lparr>files = sample_files @
               [([''docs''], Dir), ([''docs'', ''SUMMARY.md''], File merged_index)],
      console = []\<rparr>"

definition auction_index :: string where
  "auction_index = summary_skeleton @ ''* [Blind Auction](blind-auction.md)\<newline>''"

definition indexed_world :: world where
  "indexed_world =
     \<lparr>files = sample_files @
               [([''docs''], Dir), ([''docs'', ''SUMMARY.md''], File auction_index)],
      console = []\<rparr>"

text \<open>The sample repository after the counter's contract has been deleted.\<close>

definition no_contract_world :: world where
  "no_contract_world =
     \<lparr>files = filter (\<lambda>(p, n). p \<noteq> [''repo'', ''contracts'', ''basic'', ''FHECounter.sol''])
                 sample_files,
      console = []\<rparr>"


section \<open>Notions used in the proofs\<close>

text \<open>What \<^verbatim>\<open>cp -r tpl/* dst/\<close> writes: the entries copied for each name the pattern matches.\<close>

definition glob_writes :: "fs \<Rightarrow> path \<Rightarrow> path \<Rightarrow> (path \<times> node) list" where
  "glob_writes fs tpl dst = concat (map snd (map (\<lambda>e. cp_tree fs (tpl @ [e]) (dst @ [e])) (glob_star fs tpl)))"

text \<open>
  The document that the manifest rewriter writes for a parsed manifest that is not
  \<^verbatim>\<open>null\<close>: an object with the three identity fields set, anything else unchanged.
\<close>

definition rewritten :: "string \<Rightarrow> string \<Rightarrow> string list \<Rightarrow> json \<Rightarrow> json" where
  "rewritten name descr keywords j =
     (case j of
        JObj kvs \<Rightarrow>
          JObj (AList.update ''keywords'' (JArr (map JStr keywords))
                 (AList.update ''description'' (JStr descr)
                   (AList.update ''name'' (JStr name) kvs)))
      | _ \<Rightarrow> j)"


definition removed :: "(path \<times> path) list \<Rightarrow> 'a result \<Rightarrow> path \<Rightarrow> bool" where
  "removed copies r p = (\<exists>src. r = Throw (EISDIR src) \<and> (src, p) \<in> set copies)"


section \<open>What a materialization may write\<close>







section \<open>Notions for the documentation generator\<close>

text \<open>
  What \<^verbatim>\<open>generateMarkdownDoc\<close> embeds for a source path that is not a directory, the
  index that \<^verbatim>\<open>updateSummary\<close> starts from, the index it writes, and the number of
  lines of an index that are a given entry line.
\<close>

definition source_text :: "fs \<Rightarrow> path \<Rightarrow> string" where
  "source_text fs p = (case node_at fs p of Some (File s) \<Rightarrow> s | _ \<Rightarrow> [])"

definition summary_before :: "fs \<Rightarrow> path \<Rightarrow> string" where
  "summary_before fs p = (case node_at fs p of Some (File s) \<Rightarrow> s | _ \<Rightarrow> summary_skeleton)"

definition with_entry :: "string \<Rightarrow> string \<Rightarrow> string" where
  "with_entry s e = (if includes_str s e then s else s @ e @ ''\<newline>'')"

definition entry_lines :: "string \<Rightarrow> string \<Rightarrow> nat" where
  "entry_lines s e = count_list (split_on CHR ''\<newline>'' s) e"

text \<open>
  The index that runs of the documentation generator for the given names, one after the
  other, leave behind when there was no index before the first of them: a run for a
  registered name adds its entry, a run for any other name ends before it gets to the
  index.
\<close>

definition index_after :: "string list \<Rightarrow> string" where
  "index_after names =
     foldl (\<lambda>s n. case js_get DOCS_CONFIG n of
                      Own config \<Rightarrow> with_entry s (entryLine n config)
                    | _ \<Rightarrow> s)
           summary_skeleton names"

section \<open>Lemmas on strings, paths and the file system\<close>

lemma strip_prefix_eq_Some: "strip_prefix s p = Some q \<longleftrightarrow> p = s @ q"
  by (induction s p rule: strip_prefix.induct) auto

lemma bind_apply:
  "bind m f w = (case m w of (Ok a, w') \<Rightarrow> f a w' | (Exit n, w') \<Rightarrow> (Exit n, w') | (Throw e, w') \<Rightarrow> (Throw e, w'))"
  by (simp add: bind_def)

lemma bind_Ok: "bind m f w = (Ok b, w') \<longleftrightarrow> (\<exists>a w1. m w = (Ok a, w1) \<and> f a w1 = (Ok b, w'))"
  by (auto simp: bind_def split: prod.splits result.splits)

lemma seq_Ok: "seq m n w = (Ok b, w') \<longleftrightarrow> (\<exists>w1. m w = (Ok (), w1) \<and> n w1 = (Ok b, w'))"
  by (simp add: seq_def bind_Ok)

lemma console_log_Ok: "console_log s w = (r, w') \<longleftrightarrow> r = Ok () \<and> w' = w\<lparr>console := console w @ [(Stdout, s)]\<rparr>"
  by (auto simp: console_log_def)

lemma node_at_update: "node_at (AList.update k v fs) p = (if p = [] then Some Dir else if p = k then Some v else node_at fs p)"
  by (simp add: node_at_def update_conv')

lemma map_of_mkdir_walk:
  "mkdir_walk pre xs fs = Inr fs' \<Longrightarrow>
   map_of fs' p = (if map_of fs p = None \<and> (\<exists>k < length xs. p = pre @ take (Suc k) xs) then Some Dir else map_of fs p)"
proof (induction pre xs fs arbitrary: fs' rule: mkdir_walk.induct)
  case (1 pre fs)
  then show ?case by simp
next
  case (2 pre x xs fs)
  have ex: "(\<exists>k<length (x # xs). p = pre @ take (Suc k) (x # xs)) \<longleftrightarrow>
        p = pre @ [x] \<or> (\<exists>k<length xs. p = (pre @ [x]) @ take (Suc k) xs)"
    apply (auto)
     apply (case_tac k; auto)
    done
  have ne: "pre @ [x] \<noteq> []" by simp
  show ?case
  proof (cases "node_at fs (pre @ [x])")
    case None
    with 2 have "mkdir_walk (pre @ [x]) xs (AList.update (pre @ [x]) Dir fs) = Inr fs'" by simp
    from "2.IH"(1)[OF None this] None show ?thesis
      unfolding ex by (auto simp: update_conv' node_at_def split: if_splits)
  next
    case (Some n)
    show ?thesis
    proof (cases n)
      case Dir
      with 2 Some have "mkdir_walk (pre @ [x]) xs fs = Inr fs'" by simp
      from "2.IH"(2)[OF Some Dir this] Some Dir show ?thesis
        unfolding ex by (auto simp: node_at_def split: if_splits)
    next
      case (File c)
      with 2 Some show ?thesis by simp
    qed
  qed
qed

lemma mkdir_walk_creates:
  "mkdir_walk pre xs fs = Inr fs' \<Longrightarrow> xs \<noteq> [] \<Longrightarrow> node_at fs' (pre @ xs) = Some Dir"
proof (induction pre xs fs arbitrary: fs' rule: mkdir_walk.induct)
  case (1 pre fs)
  then show ?case by simp
next
  case (2 pre x xs fs)
  show ?case
  proof (cases xs)
    case Nil
    with 2 show ?thesis
      by (auto simp: node_at_def update_conv' split: option.splits node.splits)
  next
    case (Cons y ys)
    with 2 show ?thesis
      by (auto split: option.splits node.splits)
  qed
qed

lemma strip_prefix_eq_Some': "Some q = strip_prefix s p \<longleftrightarrow> p = s @ q"
  using strip_prefix_eq_Some[of s p q] by auto

lemma strip_prefix_append [simp]: "strip_prefix s (s @ q) = Some q"
  by (simp add: strip_prefix_eq_Some)

lemma glob_entry:
  "e \<in> set (case strip_prefix d p of Some [e] \<Rightarrow> if hidden e then [] else [e] | _ \<Rightarrow> [])
     \<longleftrightarrow> p = d @ [e] \<and> \<not> hidden e"
  by (cases "strip_prefix d p") (auto simp: strip_prefix_eq_Some strip_prefix_eq_Some' split: list.splits)

lemma set_glob_entries:
  "e \<in> set (concat (map (\<lambda>(p, n). case strip_prefix d p of
                                  Some [e] \<Rightarrow> if hidden e then [] else [e]
                                | _ \<Rightarrow> []) xs))
    \<longleftrightarrow> \<not> hidden e \<and> d @ [e] \<in> fst ` set xs"
proof (induction xs)
  case Nil
  then show ?case by simp
next
  case (Cons x xs)
  obtain p n where x: "x = (p, n)" by (cases x)
  show ?case using Cons glob_entry[where e=e and d=d and p=p] unfolding x by auto
qed

lemma set_glob_star:
  "e \<in> set (glob_star fs d) \<longleftrightarrow> node_at fs d = Some Dir \<and> \<not> hidden e \<and> d @ [e] \<in> fst ` set fs"
proof (cases "node_at fs d = Some Dir")
  case True
  then show ?thesis unfolding glob_star_def using set_glob_entries[where e=e and d=d and xs=fs] by simp
next
  case False
  then show ?thesis by (auto simp: glob_star_def split: option.splits node.splits)
qed

lemma reached_entry:
  "(q, n) \<in> set (case strip_prefix s p of
                    Some q \<Rightarrow> if map_of fs p = Some m \<and> descend_ok fs s t q then [(q, m)] else []
                  | None \<Rightarrow> [])
     \<longleftrightarrow> p = s @ q \<and> m = n \<and> map_of fs p = Some m \<and> descend_ok fs s t q"
  by (cases "strip_prefix s p") (auto simp: strip_prefix_eq_Some strip_prefix_eq_Some')

lemma set_reached_entries:
  "(q, n) \<in> set (concat (map (\<lambda>(p, m). case strip_prefix s p of
                             Some q \<Rightarrow> if map_of fs p = Some m \<and> descend_ok fs s t q
                                       then [(q, m)] else []
                           | None \<Rightarrow> []) xs))
    \<longleftrightarrow> (s @ q, n) \<in> set xs \<and> map_of fs (s @ q) = Some n \<and> descend_ok fs s t q"
proof (induction xs)
  case Nil
  then show ?case by simp
next
  case (Cons x xs)
  obtain p m where x: "x = (p, m)" by (cases x)
  show ?case using Cons reached_entry[where q=q and n=n and s=s and p=p and fs=fs and m=m and t=t] unfolding x by auto
qed

lemma set_reached:
  "(q, n) \<in> set (reached fs s t) \<longleftrightarrow> map_of fs (s @ q) = Some n \<and> descend_ok fs s t q"
  unfolding reached_def using set_reached_entries[where q=q and n=n and s=s and fs=fs and t=t and xs=fs]
  by (auto dest: map_of_SomeD)

lemma set_cp_tree:
  "(p, n) \<in> set (snd (cp_tree fs s t)) \<longleftrightarrow>
     (\<exists>q. p = t @ q \<and> map_of fs (s @ q) = Some n \<and> descend_ok fs s t q \<and> write_ok n (node_at fs p))"
  by (auto simp: cp_tree_def Let_def set_reached image_iff)

lemma descend_ok_top: "descend_ok fs s t q \<Longrightarrow> q \<noteq> [] \<Longrightarrow> node_at fs s = Some Dir"
proof -
  assume a: "descend_ok fs s t q" "q \<noteq> []"
  then have "0 \<in> set [0..<length q]" by simp
  with a(1) have "node_at fs (s @ take 0 q) = Some Dir"
    unfolding descend_ok_def list_all_iff by blast
  then show ?thesis by simp
qed

lemma set_glob_writes:
  "(p, n) \<in> set (glob_writes fs tpl dst) \<longleftrightarrow>
     node_at fs tpl = Some Dir \<and>
     (\<exists>e q. p = dst @ e # q \<and> \<not> hidden e \<and> map_of fs (tpl @ e # q) = Some n \<and>
            descend_ok fs (tpl @ [e]) (dst @ [e]) q \<and> write_ok n (node_at fs p))"
proof
  assume "(p, n) \<in> set (glob_writes fs tpl dst)"
  then obtain e where e: "e \<in> set (glob_star fs tpl)"
    and pn: "(p, n) \<in> set (snd (cp_tree fs (tpl @ [e]) (dst @ [e])))"
    by (auto simp: glob_writes_def)
  from pn obtain q where "p = (dst @ [e]) @ q" "map_of fs ((tpl @ [e]) @ q) = Some n"
     "descend_ok fs (tpl @ [e]) (dst @ [e]) q" "write_ok n (node_at fs p)"
    unfolding set_cp_tree by blast
  with e show "node_at fs tpl = Some Dir \<and>
     (\<exists>e q. p = dst @ e # q \<and> \<not> hidden e \<and> map_of fs (tpl @ e # q) = Some n \<and>
            descend_ok fs (tpl @ [e]) (dst @ [e]) q \<and> write_ok n (node_at fs p))"
    by (auto simp: set_glob_star)
next
  assume a: "node_at fs tpl = Some Dir \<and>
     (\<exists>e q. p = dst @ e # q \<and> \<not> hidden e \<and> map_of fs (tpl @ e # q) = Some n \<and>
            descend_ok fs (tpl @ [e]) (dst @ [e]) q \<and> write_ok n (node_at fs p))"
  then obtain e q where eq: "p = dst @ e # q" "\<not> hidden e" "map_of fs (tpl @ e # q) = Some n"
     "descend_ok fs (tpl @ [e]) (dst @ [e]) q" "write_ok n (node_at fs p)" by blast
  have "tpl @ [e] \<in> fst ` set fs"
  proof (cases q)
    case Nil
    with eq(3) have "(tpl @ [e], n) \<in> set fs" by (auto dest: map_of_SomeD)
    then show ?thesis by (force simp: image_iff)
  next
    case (Cons y ys)
    with descend_ok_top[OF eq(4)] have "node_at fs (tpl @ [e]) = Some Dir" by simp
    then have "(tpl @ [e], Dir) \<in> set fs" by (auto simp: node_at_def dest: map_of_SomeD)
    then show ?thesis by (force simp: image_iff)
  qed
  with a eq have "e \<in> set (glob_star fs tpl)" by (simp add: set_glob_star)
  moreover have "(p, n) \<in> set (snd (cp_tree fs (tpl @ [e]) (dst @ [e])))"
    unfolding set_cp_tree using eq by (intro exI[of _ q]) simp
  ultimately show "(p, n) \<in> set (glob_writes fs tpl dst)"
    by (auto simp: glob_writes_def)
qed

lemma map_of_unique:
  "(k, v) \<in> set ws \<Longrightarrow> (\<And>v'. (k, v') \<in> set ws \<Longrightarrow> v' = v) \<Longrightarrow> map_of ws k = Some v"
  by (metis map_of_SomeD weak_map_of_SomeI)

lemma map_of_glob_writes:
  "map_of (glob_writes fs tpl dst) p = Some n \<longleftrightarrow> (p, n) \<in> set (glob_writes fs tpl dst)"
proof
  assume "(p, n) \<in> set (glob_writes fs tpl dst)"
  then show "map_of (glob_writes fs tpl dst) p = Some n"
  proof (rule map_of_unique)
    fix v' assume "(p, v') \<in> set (glob_writes fs tpl dst)"
    with \<open>(p, n) \<in> set (glob_writes fs tpl dst)\<close> show "v' = n"
      unfolding set_glob_writes by auto
  qed
qed (rule map_of_SomeD)

lemma cp_r_glob_files:
  "cp_r_glob tpl dst fs = (ok, fs') \<Longrightarrow>
   map_of fs' p = (case map_of (glob_writes fs tpl dst) p of Some n \<Rightarrow> Some n | None \<Rightarrow> map_of fs p)
   \<or> fs' = fs"
  by (auto simp: cp_r_glob_def Let_def glob_writes_def merge_conv' map_add_def split: if_splits)

lemma cp_r_glob_origin:
  assumes "cp_r_glob tpl dst fs = (ok, fs')" "map_of fs' p = Some n"
  shows "map_of fs p = Some n \<or>
         (\<exists>e q. p = dst @ e # q \<and> \<not> hidden e \<and> map_of fs (tpl @ e # q) = Some n \<and>
                write_ok n (node_at fs p))"
  using cp_r_glob_files[OF assms(1), of p] assms(2)
  by (auto simp: map_of_glob_writes set_glob_writes split: option.splits)


lemma cp_r_glob_outside:
  assumes "cp_r_glob tpl dst fs = (ok, fs')" "strip_prefix dst p = None"
  shows "map_of fs' p = map_of fs p"
proof -
  have "map_of (glob_writes fs tpl dst) p = None"
  proof (cases "map_of (glob_writes fs tpl dst) p")
    case (Some n)
    then have "(p, n) \<in> set (glob_writes fs tpl dst)" by (simp add: map_of_glob_writes)
    then obtain e q where "p = dst @ e # q" unfolding set_glob_writes by blast
    then have "strip_prefix dst p = Some (e # q)" by (simp add: strip_prefix_eq_Some)
    with assms(2) show ?thesis by simp
  qed simp
  with cp_r_glob_files[OF assms(1), of p] show ?thesis by auto
qed

lemma cp_r_glob_no_template:
  "node_at fs tpl \<noteq> Some Dir \<Longrightarrow> cp_r_glob tpl dst fs = (False, fs)"
  by (auto simp: cp_r_glob_def glob_star_def split: option.splits node.splits)

lemma cp_r_glob_True:
  "cp_r_glob tpl dst fs = (True, fs') \<Longrightarrow> node_at fs dst = Some Dir"
  by (auto simp: cp_r_glob_def Let_def split: if_splits)

lemma includes_str_prefix: "includes_str (n @ b) n"
  by (cases "n @ b") (auto simp: strip_prefix_eq_Some intro: sym)

lemma includes_str_skip: "includes_str b n \<Longrightarrow> includes_str (a @ b) n"
  by (induction a) auto

lemma includes_str_middle: "includes_str (a @ n @ b) n"
  by (rule includes_str_skip) (rule includes_str_prefix)

lemma mkdir_walk_other:
  assumes "mkdir_walk [] dst fs = Inr fs'" "strip_prefix p dst = None"
  shows "map_of fs' p = map_of fs p"
proof -
  have "\<not> (\<exists>k < length dst. p = [] @ take (Suc k) dst)"
  proof
    assume "\<exists>k < length dst. p = [] @ take (Suc k) dst"
    then obtain k where "p = take (Suc k) dst" by auto
    then have "dst = p @ drop (Suc k) dst" by simp
    then have "strip_prefix p dst = Some (drop (Suc k) dst)" by (metis strip_prefix_append)
    with assms(2) show False by simp
  qed
  with map_of_mkdir_walk[OF assms(1), of p] show ?thesis by auto
qed

lemma mkdir_walk_existing:
  "mkdir_walk pre xs fs = Inr fs' \<Longrightarrow> map_of fs p = Some n \<Longrightarrow> map_of fs' p = Some n"
  using map_of_mkdir_walk[of pre xs fs fs' p] by auto


lemma seq_Throw: "fst (m w) = Throw e \<Longrightarrow> seq m n w = (Throw e, snd (m w))"
  by (cases "m w") (auto simp: seq_def bind_def)

lemma seq_Exit: "fst (m w) = Exit k \<Longrightarrow> seq m n w = (Exit k, snd (m w))"
  by (cases "m w") (auto simp: seq_def bind_def)

lemma seq_Ok_run: "m w = (Ok (), w1) \<Longrightarrow> seq m n w = n w1"
  by (auto simp: seq_def bind_def)

lemma write_file_Ok:
  "write_file p s w = (Ok u, w') \<longleftrightarrow>
     node_at (files w) (butlast p) = Some Dir \<and> node_at (files w) p \<noteq> Some Dir \<and>
     w' = w\<lparr>files := AList.update p (File s) (files w)\<rparr>"
  by (auto simp: write_file_def split: option.splits node.splits)

lemma readFileSync_Ok:
  "readFileSync p w = (Ok s, w') \<longleftrightarrow> node_at (files w) p = Some (File s) \<and> w' = w"
  by (auto simp: readFileSync_def split: option.splits node.splits)

lemma copyFileSync_Ok:
  "copyFileSync src dest w = (Ok u, w') \<longleftrightarrow>
     (\<exists>c. node_at (files w) src = Some (File c) \<and>
          node_at (files w) (butlast dest) = Some Dir \<and> node_at (files w) dest \<noteq> Some Dir \<and>
          w' = w\<lparr>files := AList.update dest (File c) (files w)\<rparr>)"
  by (auto simp: copyFileSync_def write_file_Ok split: option.splits node.splits prod.splits result.splits)

lemma console_log_run: "console_log s w = (Ok (), w\<lparr>console := console w @ [(Stdout, s)]\<rparr>)"
  by (simp add: console_log_def)

lemma copy_if_exists_Ok:
  "copy_if_exists msg src dest w = (Ok u, w') \<longleftrightarrow>
     (if existsSync (files w) src
      then \<exists>c. node_at (files w) src = Some (File c) \<and>
               node_at (files w) (butlast dest) = Some Dir \<and> node_at (files w) dest \<noteq> Some Dir \<and>
               w' = w\<lparr>console := console w @ [(Stdout, msg)],
                      files := AList.update dest (File c) (files w)\<rparr>
      else w' = w)"
  by (auto simp: copy_if_exists_def seq_Ok console_log_def copyFileSync_Ok)

lemma execSync_Ok:
  "execSync cmd nm w = (Ok u, w') \<longleftrightarrow> (\<exists>fs'. cmd (files w) = (True, fs') \<and> w' = w\<lparr>files := fs'\<rparr>)"
  by (auto simp: execSync_def split: prod.splits bool.splits)

lemma ensure_dir_Ok:
  "ensure_dir dst w = (Ok u, w') \<longleftrightarrow>
     (if existsSync (files w) dst then w' = w
      else \<exists>fs'. mkdir_walk [] dst (files w) = Inr fs' \<and> w' = w\<lparr>files := fs'\<rparr>)"
  by (auto simp: ensure_dir_def mkdirSync_def split: sum.splits)

lemma cp_r_glob_top:
  assumes "cp_r_glob tpl dst fs = (True, fs')" "map_of fs (tpl @ [e]) = Some n" "\<not> hidden e"
  shows "map_of fs' (dst @ [e]) = Some n"
proof -
  from assms(1) have es: "glob_star fs tpl \<noteq> []" and d: "node_at fs dst = Some Dir"
    and ok: "list_all fst (map (\<lambda>e. cp_tree fs (tpl @ [e]) (dst @ [e])) (glob_star fs tpl))"
    and fs': "fs' = AList.merge fs (glob_writes fs tpl dst)"
    by (auto simp: cp_r_glob_def Let_def glob_writes_def split: if_splits)
  from es obtain e0 where "e0 \<in> set (glob_star fs tpl)" by (cases "glob_star fs tpl") auto
  then have t: "node_at fs tpl = Some Dir" by (simp add: set_glob_star)
  from assms(2) have "(tpl @ [e], n) \<in> set fs" by (rule map_of_SomeD)
  then have "tpl @ [e] \<in> fst ` set fs" by (force simp: image_iff)
  with t assms(3) have e: "e \<in> set (glob_star fs tpl)" by (simp add: set_glob_star)
  with ok have "fst (cp_tree fs (tpl @ [e]) (dst @ [e]))" by (auto simp: list_all_iff)
  then have all: "list_all (\<lambda>(q, n). write_ok n (node_at fs ((dst @ [e]) @ q))) (reached fs (tpl @ [e]) (dst @ [e]))"
    by (simp add: cp_tree_def Let_def)
  have "([], n) \<in> set (reached fs (tpl @ [e]) (dst @ [e]))"
    using assms(2) by (simp add: set_reached descend_ok_def)
  with all have "write_ok n (node_at fs (dst @ [e]))" by (auto simp: list_all_iff)
  with t assms have "(dst @ [e], n) \<in> set (glob_writes fs tpl dst)"
    unfolding set_glob_writes by (auto simp: descend_ok_def intro!: exI[of _ e] exI[of _ "[]"])
  then have "map_of (glob_writes fs tpl dst) (dst @ [e]) = Some n" by (simp add: map_of_glob_writes)
  with fs' show ?thesis by (simp add: merge_conv' map_add_def)
qed

lemma cp_r_glob_dst:
  assumes "cp_r_glob tpl dst fs = (True, fs')"
  shows "node_at fs' dst = Some Dir"
proof -
  from assms have d: "node_at fs dst = Some Dir" by (rule cp_r_glob_True)
  have "map_of (glob_writes fs tpl dst) dst = None"
  proof (cases "map_of (glob_writes fs tpl dst) dst")
    case (Some n)
    then have "(dst, n) \<in> set (glob_writes fs tpl dst)" by (simp add: map_of_glob_writes)
    then show ?thesis unfolding set_glob_writes by auto
  qed simp
  with cp_r_glob_files[OF assms, of dst] d show ?thesis by (auto simp: node_at_def)
qed

lemma prepare_destination_Ok:
  assumes "prepare_destination env banner dst w = (Ok (), w')"
  shows "\<exists>fs1. (if existsSync (files w) dst then fs1 = files w else mkdir_walk [] dst (files w) = Inr fs1)
          \<and> cp_r_glob (templateDir env) dst fs1 = (True, files w')
          \<and> console w' = console w @ [(Stdout, banner), (Stdout, emoji_folder @ '' Copying base template...'')]"
proof -
  from assms obtain w1 w2 where l: "console_log banner w = (Ok (), w1)"
    and e: "ensure_dir dst w1 = (Ok (), w2)" and c: "copy_template env dst w2 = (Ok (), w')"
    by (auto simp: prepare_destination_def seq_Ok)
  from l have w1: "files w1 = files w" "console w1 = console w @ [(Stdout, banner)]"
    by (auto simp: console_log_def)
  from e have w2: "console w2 = console w1"
    "if existsSync (files w1) dst then files w2 = files w1 else mkdir_walk [] dst (files w1) = Inr (files w2)"
    by (auto simp: ensure_dir_Ok split: if_splits)
  from c have "cp_r_glob (templateDir env) dst (files w2) = (True, files w')"
    "console w' = console w2 @ [(Stdout, emoji_folder @ '' Copying base template...'')]"
    by (auto simp: copy_template_def seq_Ok console_log_def execSync_Ok)
  with w1 w2 show ?thesis by (intro exI[of _ "files w2"]) (auto split: if_splits)
qed

lemma prepare_destination_facts:
  assumes "prepare_destination env banner dst w = (Ok (), w')"
  shows "node_at (files w') dst = Some Dir"
    and "\<And>p n. map_of (files w) p = Some n \<Longrightarrow> strip_prefix dst p = None \<Longrightarrow> map_of (files w') p = Some n"
    and "\<And>e n. map_of (files w) (templateDir env @ [e]) = Some n \<Longrightarrow> \<not> hidden e
            \<Longrightarrow> map_of (files w') (dst @ [e]) = Some n"
proof -
  from prepare_destination_Ok[OF assms] obtain fs1 where
    fs1: "if existsSync (files w) dst then fs1 = files w else mkdir_walk [] dst (files w) = Inr fs1"
    and cp: "cp_r_glob (templateDir env) dst fs1 = (True, files w')" by blast
  have keep: "\<And>p n. map_of (files w) p = Some n \<Longrightarrow> map_of fs1 p = Some n"
    using fs1 by (auto split: if_splits dest: mkdir_walk_existing)
  show "node_at (files w') dst = Some Dir" using cp by (rule cp_r_glob_dst)
  show "\<And>p n. map_of (files w) p = Some n \<Longrightarrow> strip_prefix dst p = None \<Longrightarrow> map_of (files w') p = Some n"
    using cp_r_glob_outside[OF cp] keep by simp
  show "\<And>e n. map_of (files w) (templateDir env @ [e]) = Some n \<Longrightarrow> \<not> hidden e
            \<Longrightarrow> map_of (files w') (dst @ [e]) = Some n"
    using cp_r_glob_top[OF cp] keep by simp
qed

lemma prepare_no_template:
  assumes "node_at (files w) (templateDir env) = None"
      and "strip_prefix (templateDir env) dst = None"
  shows "\<exists>e. fst (prepare_destination env banner dst w) = Throw e"
    and "files (snd (prepare_destination env banner dst w)) =
           (if existsSync (files w) dst then files w
            else case mkdir_walk [] dst (files w) of Inr fs' \<Rightarrow> fs' | Inl _ \<Rightarrow> files w)"
proof -
  have ne: "templateDir env \<noteq> []" using assms(1) by (auto simp: node_at_def)
  have absent: "map_of (files w) (templateDir env) = None" using assms(1) ne by (simp add: node_at_def)
  have fail: "\<And>fs. map_of fs (templateDir env) = None \<Longrightarrow> cp_r_glob (templateDir env) dst fs = (False, fs)"
    using ne by (intro cp_r_glob_no_template) (simp add: node_at_def)
  show "\<exists>e. fst (prepare_destination env banner dst w) = Throw e"
    using absent fail mkdir_walk_other[OF _ assms(2)]
    by (auto simp: prepare_destination_def seq_def bind_def console_log_def ensure_dir_def
        copy_template_def execSync_def mkdirSync_def split: sum.splits)
  show "files (snd (prepare_destination env banner dst w)) =
           (if existsSync (files w) dst then files w
            else case mkdir_walk [] dst (files w) of Inr fs' \<Rightarrow> fs' | Inl _ \<Rightarrow> files w)"
    using absent fail mkdir_walk_other[OF _ assms(2)]
    by (auto simp: prepare_destination_def seq_def bind_def console_log_def ensure_dir_def
        copy_template_def execSync_def mkdirSync_def split: sum.splits)
qed

lemma registered_samples:
  "js_get EXAMPLES_MAP ''fhe-counter'' = Own counter_example"
  "js_get CATEGORIES ''basic'' = Own basic_category"
  by (simp_all add: js_get_def EXAMPLES_MAP_def CATEGORIES_def counter_example_def
      basic_category_def)

lemma assignments_run:
  "(case set_property ''name'' a j0 of
      Inl e \<Rightarrow> throw e
    | Inr j1 \<Rightarrow>
        (case set_property ''description'' b j1 of
           Inl e \<Rightarrow> throw e
         | Inr j2 \<Rightarrow>
             (case set_property ''keywords'' c j2 of
                Inl e \<Rightarrow> throw e
              | Inr j3 \<Rightarrow> k j3)))
   = (if j0 = JNull then throw (TypeError ''Cannot set properties of null'')
      else k (case j0 of
                JObj kvs \<Rightarrow> JObj (AList.update ''keywords'' c
                               (AList.update ''description'' b (AList.update ''name'' a kvs)))
              | _ \<Rightarrow> j0))"
  by (cases j0) (simp_all add: set_property_def)

lemma rewrite_manifest_run:
  "rewrite_manifest env p name descr kws w =
     (case node_at (files w) p of
        None \<Rightarrow> (Throw (ENOENT p), w)
      | Some Dir \<Rightarrow> (Throw (EISDIR p), w)
      | Some (File mtext) \<Rightarrow>
          (case JSON_parse env mtext of
             None \<Rightarrow> (Throw SyntaxError, w)
           | Some j0 \<Rightarrow>
               if j0 = JNull then (Throw (TypeError ''Cannot set properties of null''), w)
               else write_file p (JSON_stringify env (rewritten name descr kws j0)) w))"
  by (auto simp: rewrite_manifest_def bind_def readFileSync_def assignments_run throw_def
      writeFileSync_def rewritten_def split: option.splits node.splits)

lemma rewrite_manifest_Ok:
  "rewrite_manifest env p name descr kws w = (Ok (), w') \<longleftrightarrow>
     (\<exists>mtext j0. node_at (files w) p = Some (File mtext) \<and> JSON_parse env mtext = Some j0 \<and>
        j0 \<noteq> JNull \<and> node_at (files w) (butlast p) = Some Dir \<and>
        w' = w\<lparr>files := AList.update p (File (JSON_stringify env (rewritten name descr kws j0))) (files w)\<rparr>)"
  unfolding rewrite_manifest_run
  by (auto simp: write_file_Ok split: option.splits node.splits)

lemma plain_paths:
  "path_join dst [''package.json''] = dst @ [''package.json'']"
  "path_join dst [''README.md''] = dst @ [''README.md'']"
  "path_join dst [''SUMMARY.md''] = dst @ [''SUMMARY.md'']"
  "path_join dst [''test'', ''utils''] = dst @ [''test'', ''utils'']"
  by (simp_all add: path_join_def path_step_def)

lemma copy_if_exists_files:
  assumes "copy_if_exists msg src dest w = (Ok (), w')"
  shows "map_of (files w') p =
           (if p = dest \<and> existsSync (files w) src then map_of (files w) src else map_of (files w) p)"
    and "console w' = console w @ (if existsSync (files w) src then [(Stdout, msg)] else [])"
    and "existsSync (files w) src \<Longrightarrow> \<exists>c. map_of (files w) src = Some (File c)"
  using assms unfolding copy_if_exists_Ok
  by (auto simp: update_conv' node_at_def split: if_splits)

lemma not_under:
  "strip_prefix dst p = None \<Longrightarrow> p \<noteq> dst @ q"
  by (auto simp: strip_prefix_eq_Some)

lemma overlay_example_Ok:
  assumes run: "overlay_example env name dst config w = (Ok (), w')"
      and cdest: "path_join dst [''contracts'', basename (ex_contract config)] = dst @ [''contracts'', cb]"
      and tdest: "path_join dst [''test'', basename (ex_test config)] = dst @ [''test'', tb]"
      and csrc: "strip_prefix dst (path_join (root env) [''contracts'', ex_contract config]) = None"
      and tsrc: "strip_prefix dst (path_join (root env) [''test'', ex_test config]) = None"
  shows "\<exists>mtext j0.
           map_of (files w) (dst @ [''package.json'']) = Some (File mtext) \<and>
           JSON_parse env mtext = Some j0 \<and> j0 \<noteq> JNull \<and>
           (\<forall>p. map_of (files w') p =
              (if p = dst @ [''package.json'']
               then Some (File (JSON_stringify env
                      (rewritten (''fhevm-'' @ name) (ex_description config)
                         (FIXED_KEYWORDS @ [ex_category config]) j0)))
               else if p = dst @ [''README.md''] then Some (File (generateReadme name config))
               else if p = dst @ [''test'', tb] \<and>
                       existsSync (files w) (path_join (root env) [''test'', ex_test config])
               then map_of (files w) (path_join (root env) [''test'', ex_test config])
               else if p = dst @ [''contracts'', cb] \<and>
                       existsSync (files w) (path_join (root env) [''contracts'', ex_contract config])
               then map_of (files w) (path_join (root env) [''contracts'', ex_contract config])
               else map_of (files w) p))"
proof -
  let ?cs = "path_join (root env) [''contracts'', ex_contract config]"
  let ?ts = "path_join (root env) [''test'', ex_test config]"
  from run obtain w1 w2 w3 w4 where
    s1: "copy_if_exists (emoji_page @ '' Copying contract: '' @ ex_contract config) ?cs
           (dst @ [''contracts'', cb]) w = (Ok (), w1)"
    and s2: "copy_if_exists (emoji_tube @ '' Copying test: '' @ ex_test config) ?ts
           (dst @ [''test'', tb]) w1 = (Ok (), w2)"
    and s3: "write_file (dst @ [''README.md'']) (generateReadme name config) w2 = (Ok (), w3)"
    and s4: "rewrite_manifest env (dst @ [''package.json'']) (''fhevm-'' @ name) (ex_description config)
           (FIXED_KEYWORDS @ [ex_category config]) w3 = (Ok (), w4)"
    and s5: "files w' = files w4"
    unfolding overlay_example_def seq_Ok cdest tdest plain_paths updatePackageJson_def
      writeFileSync_def
    by (auto simp: console_log_def)
  note f1 = copy_if_exists_files(1)[OF s1]
  note f2 = copy_if_exists_files(1)[OF s2]
  have ts1: "map_of (files w1) ?ts = map_of (files w) ?ts"
    using f1[of ?ts] not_under[OF tsrc] by auto
  have ex1: "existsSync (files w1) ?ts = existsSync (files w) ?ts"
    using ts1 by (simp add: existsSync_def node_at_def)
  from s3 have f3: "files w3 = AList.update (dst @ [''README.md'']) (File (generateReadme name config)) (files w2)"
    by (auto simp: write_file_Ok)
  from s4 obtain mtext j0 where m: "node_at (files w3) (dst @ [''package.json'']) = Some (File mtext)"
    "JSON_parse env mtext = Some j0" "j0 \<noteq> JNull"
    and f4: "files w4 = AList.update (dst @ [''package.json''])
       (File (JSON_stringify env (rewritten (''fhevm-'' @ name) (ex_description config)
                         (FIXED_KEYWORDS @ [ex_category config]) j0))) (files w3)"
    unfolding rewrite_manifest_Ok by auto
  have "map_of (files w) (dst @ [''package.json'']) = Some (File mtext)"
    using m(1) f3 f2[of "dst @ [''package.json'']"] f1[of "dst @ [''package.json'']"]
    by (simp add: node_at_def update_conv')
  moreover have "\<forall>p. map_of (files w') p =
              (if p = dst @ [''package.json'']
               then Some (File (JSON_stringify env
                      (rewritten (''fhevm-'' @ name) (ex_description config)
                         (FIXED_KEYWORDS @ [ex_category config]) j0)))
               else if p = dst @ [''README.md''] then Some (File (generateReadme name config))
               else if p = dst @ [''test'', tb] \<and> existsSync (files w) ?ts
               then map_of (files w) ?ts
               else if p = dst @ [''contracts'', cb] \<and> existsSync (files w) ?cs
               then map_of (files w) ?cs
               else map_of (files w) p)"
    using s5 f4 f3 f2 f1 ts1 ex1 by (auto simp: update_conv')
  ultimately show ?thesis using m by blast
qed

lemma known_example:
  assumes "js_get EXAMPLES_MAP name = Own config"
  shows "(name = ''blind-auction'' \<and> config = auction_example) \<or>
         (name = ''fhe-counter'' \<and> config = counter_example)"
  using assms
  by (auto simp: js_get_def EXAMPLES_MAP_def auction_example_def counter_example_def
      split: if_splits)


lemma example_paths:
  "path_join dst [''contracts'', basename (ex_contract counter_example)] = dst @ [''contracts'', ''FHECounter.sol'']"
  "path_join dst [''test'', basename (ex_test counter_example)] = dst @ [''test'', ''FHECounter.ts'']"
  "path_join r [''contracts'', ex_contract counter_example] = r @ [''contracts'', ''basic'', ''FHECounter.sol'']"
  "path_join r [''test'', ex_test counter_example] = r @ [''test'', ''basic'', ''FHECounter.ts'']"
  "path_join dst [''contracts'', basename (ex_contract auction_example)] = dst @ [''contracts'', ''BlindAuction.sol'']"
  "path_join dst [''test'', basename (ex_test auction_example)] = dst @ [''test'', ''BlindAuction.ts'']"
  "path_join r [''contracts'', ex_contract auction_example] = r @ [''contracts'', ''auctions'', ''BlindAuction.sol'']"
  "path_join r [''test'', ex_test auction_example] = r @ [''test'', ''auctions'', ''BlindAuction.ts'']"
  by (simp_all add: path_join_def path_step_def basename_def counter_example_def auction_example_def)

lemma known_example_dests:
  assumes "js_get EXAMPLES_MAP name = Own config"
  shows "\<exists>cb tb. path_join dst [''contracts'', basename (ex_contract config)] = dst @ [''contracts'', cb]
           \<and> path_join dst [''test'', basename (ex_test config)] = dst @ [''test'', tb]"
  using known_example[OF assms] by (auto simp: example_paths)

lemma readme_heading:
  "includes_str (generateReadme name config) (capitalize name @ '' - FHEVM Example'')"
proof -
  have "\<exists>b. generateReadme name config = ''# '' @ (capitalize name @ '' - FHEVM Example'') @ b"
    unfolding generateReadme_def by simp
  then show ?thesis using includes_str_middle by metis
qed

lemma createExample_Ok:
  assumes "createExample env name dst w = (Ok (), w')" "js_get EXAMPLES_MAP name = Own config"
  shows "\<exists>w3. prepare_destination env
                (emoji_rocket @ '' Creating '' @ name @ '' example in '' @ join ''/'' dst) dst w = (Ok (), w3)
            \<and> overlay_example env name dst config w3 = (Ok (), w')"
  using assms by (simp add: createExample_def seq_Ok)

lemma rewritten_fields:
  "get_property ''name'' (rewritten n d ks (JObj kvs)) = Some (JStr n)"
  "get_property ''description'' (rewritten n d ks (JObj kvs)) = Some (JStr d)"
  "get_property ''keywords'' (rewritten n d ks (JObj kvs)) = Some (JArr (map JStr ks))"
  "k \<noteq> ''name'' \<Longrightarrow> k \<noteq> ''description'' \<Longrightarrow> k \<noteq> ''keywords'' \<Longrightarrow>
     get_property k (rewritten n d ks (JObj kvs)) = map_of kvs k"
  by (simp_all add: get_property_def rewritten_def update_conv')

lemma file_text_map_of: "map_of fs p = Some (File s) \<Longrightarrow> p \<noteq> [] \<Longrightarrow> file_text fs p = Some s"
  by (auto simp: file_text_def node_at_def)

lemma overlay_example_outputs:
  assumes run: "overlay_example env name dst config w = (Ok (), w')"
      and cdest: "path_join dst [''contracts'', basename (ex_contract config)] = dst @ [''contracts'', cb]"
      and tdest: "path_join dst [''test'', basename (ex_test config)] = dst @ [''test'', tb]"
  shows "map_of (files w') (dst @ [''README.md'']) = Some (File (generateReadme name config))"
    and "\<exists>mtext j0.
           map_of (files w) (dst @ [''package.json'']) = Some (File mtext) \<and>
           JSON_parse env mtext = Some j0 \<and> j0 \<noteq> JNull \<and>
           map_of (files w') (dst @ [''package.json'']) =
             Some (File (JSON_stringify env
                      (rewritten (''fhevm-'' @ name) (ex_description config)
                         (FIXED_KEYWORDS @ [ex_category config]) j0)))"
proof -
  from run obtain w1 w2 w3 w4 where
    s1: "copy_if_exists (emoji_page @ '' Copying contract: '' @ ex_contract config)
           (path_join (root env) [''contracts'', ex_contract config])
           (dst @ [''contracts'', cb]) w = (Ok (), w1)"
    and s2: "copy_if_exists (emoji_tube @ '' Copying test: '' @ ex_test config)
           (path_join (root env) [''test'', ex_test config])
           (dst @ [''test'', tb]) w1 = (Ok (), w2)"
    and s3: "write_file (dst @ [''README.md'']) (generateReadme name config) w2 = (Ok (), w3)"
    and s4: "rewrite_manifest env (dst @ [''package.json'']) (''fhevm-'' @ name) (ex_description config)
           (FIXED_KEYWORDS @ [ex_category config]) w3 = (Ok (), w4)"
    and s5: "files w' = files w4"
    unfolding overlay_example_def seq_Ok cdest tdest plain_paths updatePackageJson_def
      writeFileSync_def
    by (auto simp: console_log_def)
  note f1 = copy_if_exists_files(1)[OF s1]
  note f2 = copy_if_exists_files(1)[OF s2]
  from s3 have f3: "files w3 = AList.update (dst @ [''README.md'']) (File (generateReadme name config)) (files w2)"
    by (auto simp: write_file_Ok)
  from s4 obtain mtext j0 where m: "node_at (files w3) (dst @ [''package.json'']) = Some (File mtext)"
    "JSON_parse env mtext = Some j0" "j0 \<noteq> JNull"
    and f4: "files w4 = AList.update (dst @ [''package.json''])
       (File (JSON_stringify env (rewritten (''fhevm-'' @ name) (ex_description config)
                         (FIXED_KEYWORDS @ [ex_category config]) j0))) (files w3)"
    unfolding rewrite_manifest_Ok by auto
  show "map_of (files w') (dst @ [''README.md'']) = Some (File (generateReadme name config))"
    using s5 f4 f3 by (simp add: update_conv')
  have "map_of (files w) (dst @ [''package.json'']) = Some (File mtext)"
    using m(1) f3 f2[of "dst @ [''package.json'']"] f1[of "dst @ [''package.json'']"]
    by (simp add: node_at_def update_conv')
  moreover have "map_of (files w') (dst @ [''package.json'']) =
             Some (File (JSON_stringify env
                      (rewritten (''fhevm-'' @ name) (ex_description config)
                         (FIXED_KEYWORDS @ [ex_category config]) j0)))"
    using s5 f4 by (simp add: update_conv')
  ultimately show "\<exists>mtext j0.
           map_of (files w) (dst @ [''package.json'']) = Some (File mtext) \<and>
           JSON_parse env mtext = Some j0 \<and> j0 \<noteq> JNull \<and>
           map_of (files w') (dst @ [''package.json'']) =
             Some (File (JSON_stringify env
                      (rewritten (''fhevm-'' @ name) (ex_description config)
                         (FIXED_KEYWORDS @ [ex_category config]) j0)))"
    using m by blast
qed











lemma removed_simps [simp]:
  "removed copies (Ok a) = (\<lambda>_. False)" "removed copies (Exit k) = (\<lambda>_. False)"
  by (auto simp: removed_def fun_eq_iff)

















lemma sample_counter_run:
  "fst (createExample sample_env ''fhe-counter'' [''out'', ''x''] sample_world) = Ok ()"
  by code_simp


lemma run_pair: "fst x = Ok () \<Longrightarrow> x = (Ok (), snd x)"
  by (cases x) simp

lemma createExample_readme:
  assumes "createExample env name dst w = (Ok (), w')" "js_get EXAMPLES_MAP name = Own config"
  shows "file_text (files w') (dst @ [''README.md'']) = Some (generateReadme name config)"
proof -
  from createExample_Ok[OF assms] obtain w3 where
    over: "overlay_example env name dst config w3 = (Ok (), w')" by blast
  from known_example_dests[OF assms(2)] obtain cb tb where
    "path_join dst [''contracts'', basename (ex_contract config)] = dst @ [''contracts'', cb]"
    "path_join dst [''test'', basename (ex_test config)] = dst @ [''test'', tb]" by blast
  from overlay_example_outputs(1)[OF over this] show ?thesis by (simp add: file_text_map_of)
qed








lemma read_if_exists_Ok:
  "read_if_exists p w = (Ok s, w') \<longleftrightarrow>
     w' = w \<and> node_at (files w) p \<noteq> Some Dir \<and> s = source_text (files w) p"
  by (auto simp: read_if_exists_def readFileSync_def source_text_def existsSync_def
      split: option.splits node.splits)

lemma return_Ok: "return a w = (Ok b, w') \<longleftrightarrow> a = b \<and> w' = w"
  by (auto simp: return_def)

lemma generateMarkdownDoc_Ok:
  assumes "getContractPath env name = Inr cpath" "getTestPath env name = Inr tpath"
  shows "generateMarkdownDoc env name config w = (Ok doc, w') \<longleftrightarrow>
           w' = w \<and> node_at (files w) cpath \<noteq> Some Dir \<and> node_at (files w) tpath \<noteq> Some Dir \<and>
           doc = render_doc config (source_text (files w) cpath) (source_text (files w) tpath)"
  by (auto simp: generateMarkdownDoc_def assms bind_Ok read_if_exists_Ok return_Ok)

lemma updateSummary_Ok:
  "updateSummary dst name config w = (Ok (), w') \<longleftrightarrow>
     node_at (files w) dst = Some Dir \<and> node_at (files w) (dst @ [''SUMMARY.md'']) \<noteq> Some Dir \<and>
     w' = w\<lparr>files := AList.update (dst @ [''SUMMARY.md''])
                        (File (with_entry (summary_before (files w) (dst @ [''SUMMARY.md'']))
                                          (entryLine name config))) (files w),
            console := console w @ [(Stdout, emoji_memo @ '' Updated SUMMARY.md'')]\<rparr>"
  by (auto simp: updateSummary_def bind_Ok seq_Ok plain_paths writeFileSync_def write_file_Ok
      readFileSync_Ok console_log_def existsSync_def summary_before_def with_entry_def
      split: if_splits option.splits node.splits)

lemma ensure_dir_files:
  "ensure_dir dst w = (Ok (), w') \<longleftrightarrow>
     console w' = console w \<and>
     (if existsSync (files w) dst then files w' = files w
      else mkdir_walk [] dst (files w) = Inr (files w'))"
  by (cases w; cases w') (auto simp: ensure_dir_Ok)

lemma generateDocs_OkD:
  assumes run: "generateDocs env name dst w = (Ok (), w')"
      and known: "js_get DOCS_CONFIG name = Own config"
      and cp: "getContractPath env name = Inr cpath" and tp: "getTestPath env name = Inr tpath"
      and dp: "path_join dst [name @ ''.md''] = dst @ [dn]" and dn: "dn \<noteq> ''SUMMARY.md''"
  shows "\<exists>fs1. (if existsSync (files w) dst then fs1 = files w else mkdir_walk [] dst (files w) = Inr fs1)
        \<and> node_at fs1 dst = Some Dir
        \<and> node_at fs1 cpath \<noteq> Some Dir \<and> node_at fs1 tpath \<noteq> Some Dir
        \<and> node_at fs1 (dst @ [dn]) \<noteq> Some Dir
        \<and> node_at fs1 (dst @ [''SUMMARY.md'']) \<noteq> Some Dir
        \<and> files w' =
            AList.update (dst @ [''SUMMARY.md''])
              (File (with_entry (summary_before fs1 (dst @ [''SUMMARY.md''])) (entryLine name config)))
              (AList.update (dst @ [dn])
                 (File (render_doc config (source_text fs1 cpath) (source_text fs1 tpath))) fs1)"
proof -
  let ?doc = "\<lambda>fs. render_doc config (source_text fs cpath) (source_text fs tpath)"
  from run known obtain w0 wa where
    l: "console_log (emoji_books @ '' Generating documentation for '' @ name) w = (Ok (), w0)"
    and e: "ensure_dir dst w0 = (Ok (), wa)"
    and rest: "bind (generateMarkdownDoc env name config) (\<lambda>docContent.
                   seq (writeFileSync (dst @ [dn]) docContent)
                  (seq (console_log (emoji_check @ '' Documentation generated: '' @
                          join ''/'' (dst @ [dn])))
                       (updateSummary dst name config))) wa = (Ok (), w')"
    by (auto simp: generateDocs_def seq_Ok dp)
  from l have f0: "files w0 = files w" by (auto simp: console_log_def)
  from e f0 have dir: "if existsSync (files w) dst then files wa = files w
                       else mkdir_walk [] dst (files w) = Inr (files wa)"
    by (auto simp: ensure_dir_files split: if_splits)
  from rest obtain wb wc where
    g: "node_at (files wa) cpath \<noteq> Some Dir" "node_at (files wa) tpath \<noteq> Some Dir"
    and wr: "write_file (dst @ [dn]) (?doc (files wa)) wa = (Ok (), wb)"
    and l2: "console_log (emoji_check @ '' Documentation generated: '' @ join ''/'' (dst @ [dn])) wb = (Ok (), wc)"
    and u: "updateSummary dst name config wc = (Ok (), w')"
    by (auto simp: bind_Ok generateMarkdownDoc_Ok[OF cp tp] seq_Ok writeFileSync_def)
  from wr have d: "node_at (files wa) dst = Some Dir" "node_at (files wa) (dst @ [dn]) \<noteq> Some Dir"
    and fb: "files wb = AList.update (dst @ [dn]) (File (?doc (files wa))) (files wa)"
    by (auto simp: write_file_Ok)
  from l2 have fc: "files wc = files wb" by (auto simp: console_log_def)
  from u have s: "node_at (files wc) (dst @ [''SUMMARY.md'']) \<noteq> Some Dir"
    and fw: "files w' = AList.update (dst @ [''SUMMARY.md''])
                        (File (with_entry (summary_before (files wc) (dst @ [''SUMMARY.md'']))
                                          (entryLine name config))) (files wc)"
    by (auto simp: updateSummary_Ok)
  have sb: "summary_before (files wc) (dst @ [''SUMMARY.md'']) = summary_before (files wa) (dst @ [''SUMMARY.md''])"
    using dn by (simp add: fc fb summary_before_def node_at_update)
  have s1: "node_at (files wa) (dst @ [''SUMMARY.md'']) \<noteq> Some Dir"
    using s dn by (simp add: fc fb node_at_update)
  show ?thesis
    using dir d g s1 fw sb fc fb by (intro exI[of _ "files wa"]) simp
qed

lemma generateDocs_OkI:
  assumes known: "js_get DOCS_CONFIG name = Own config"
      and cp: "getContractPath env name = Inr cpath" and tp: "getTestPath env name = Inr tpath"
      and dp: "path_join dst [name @ ''.md''] = dst @ [dn]" and dn: "dn \<noteq> ''SUMMARY.md''"
      and dir: "if existsSync (files w) dst then fs1 = files w else mkdir_walk [] dst (files w) = Inr fs1"
      and d: "node_at fs1 dst = Some Dir"
      and c: "node_at fs1 cpath \<noteq> Some Dir" and t: "node_at fs1 tpath \<noteq> Some Dir"
      and dd: "node_at fs1 (dst @ [dn]) \<noteq> Some Dir"
      and sd: "node_at fs1 (dst @ [''SUMMARY.md'']) \<noteq> Some Dir"
  shows "fst (generateDocs env name dst w) = Ok ()"
    and "files (snd (generateDocs env name dst w)) =
            AList.update (dst @ [''SUMMARY.md''])
              (File (with_entry (summary_before fs1 (dst @ [''SUMMARY.md''])) (entryLine name config)))
              (AList.update (dst @ [dn])
                 (File (render_doc config (source_text fs1 cpath) (source_text fs1 tpath))) fs1)"
proof -
  let ?doc = "render_doc config (source_text fs1 cpath) (source_text fs1 tpath)"
  define w0 where "w0 = w\<lparr>console := console w @ [(Stdout, emoji_books @ '' Generating documentation for '' @ name)]\<rparr>"
  define wa where "wa = w0\<lparr>files := fs1\<rparr>"
  define wb where "wb = wa\<lparr>files := AList.update (dst @ [dn]) (File ?doc) fs1\<rparr>"
  define wc where "wc = wb\<lparr>console := console wb @ [(Stdout, emoji_check @ '' Documentation generated: '' @ join ''/'' (dst @ [dn]))]\<rparr>"
  define wd where "wd = wc\<lparr>files := AList.update (dst @ [''SUMMARY.md''])
                        (File (with_entry (summary_before (files wc) (dst @ [''SUMMARY.md'']))
                                          (entryLine name config))) (files wc),
            console := console wc @ [(Stdout, emoji_memo @ '' Updated SUMMARY.md'')]\<rparr>"
  have l: "console_log (emoji_books @ '' Generating documentation for '' @ name) w = (Ok (), w0)"
    by (simp add: console_log_def w0_def)
  have e: "ensure_dir dst w0 = (Ok (), wa)"
    using dir by (auto simp: ensure_dir_Ok w0_def wa_def split: if_splits)
  have g: "generateMarkdownDoc env name config wa = (Ok ?doc, wa)"
    using c t by (simp add: generateMarkdownDoc_Ok[OF cp tp] wa_def)
  have wr: "write_file (dst @ [dn]) ?doc wa = (Ok (), wb)"
    using d dd by (simp add: write_file_Ok wa_def wb_def)
  have l2: "console_log (emoji_check @ '' Documentation generated: '' @ join ''/'' (dst @ [dn])) wb = (Ok (), wc)"
    by (simp add: console_log_def wc_def)
  have u: "updateSummary dst name config wc = (Ok (), wd)"
    using d sd dn by (simp add: updateSummary_Ok wd_def wc_def wb_def wa_def node_at_update)
  have run: "generateDocs env name dst w = (Ok (), wd)"
    using l e g wr l2 u unfolding generateDocs_def known
    by (simp add: dp seq_def bind_def writeFileSync_def)
  have sb: "summary_before (files wc) (dst @ [''SUMMARY.md'']) = summary_before fs1 (dst @ [''SUMMARY.md''])"
    using dn by (simp add: wc_def wb_def summary_before_def node_at_update)
  show "fst (generateDocs env name dst w) = Ok ()" using run by simp
  show "files (snd (generateDocs env name dst w)) =
            AList.update (dst @ [''SUMMARY.md''])
              (File (with_entry (summary_before fs1 (dst @ [''SUMMARY.md''])) (entryLine name config)))
              (AList.update (dst @ [dn]) (File ?doc) fs1)"
    using run sb by (simp add: wd_def wc_def wb_def)
qed

lemma known_doc:
  assumes "js_get DOCS_CONFIG name = Own config"
  shows "(name = ''blind-auction'' \<and> config = auction_doc) \<or>
         (name = ''fhe-counter'' \<and> config = counter_doc)"
  using assms
  by (auto simp: js_get_def DOCS_CONFIG_def auction_doc_def counter_doc_def split: if_splits)

lemma doc_paths:
  "getContractPath env ''fhe-counter'' = Inr (root env @ [''contracts'', ''basic'', ''FHECounter.sol''])"
  "getTestPath env ''fhe-counter'' = Inr (root env @ [''test'', ''basic'', ''FHECounter.ts''])"
  "getContractPath env ''blind-auction'' = Inr (root env @ [''contracts'', ''auctions'', ''BlindAuction.sol''])"
  "getTestPath env ''blind-auction'' = Inr (root env @ [''test'', ''auctions'', ''BlindAuction.ts''])"
  "path_join dst [''fhe-counter.md''] = dst @ [''fhe-counter.md'']"
  "path_join dst [''blind-auction.md''] = dst @ [''blind-auction.md'']"
  by (simp_all add: getContractPath_def getTestPath_def mapped_path_def js_get_def contractMap_def
      testMap_def path_join_def path_step_def)

lemma last_differs: "last p \<noteq> last q \<Longrightarrow> p \<noteq> q"
  by auto

lemma known_doc_paths:
  assumes "js_get DOCS_CONFIG name = Own config"
  shows "\<exists>cpath tpath dn. getContractPath env name = Inr cpath \<and> getTestPath env name = Inr tpath
           \<and> path_join dst [name @ ''.md''] = dst @ [dn] \<and> dn \<noteq> ''SUMMARY.md''
           \<and> cpath \<noteq> dst @ [dn] \<and> cpath \<noteq> dst @ [''SUMMARY.md'']
           \<and> tpath \<noteq> dst @ [dn] \<and> tpath \<noteq> dst @ [''SUMMARY.md'']"
  using known_doc[OF assms]
  by (auto simp: doc_paths intro!: last_differs)

lemma with_entry_includes: "includes_str (with_entry s e) e"
  by (auto simp: with_entry_def includes_str_middle[of s e "''\<newline>''"])

lemma with_entry_idem: "with_entry (with_entry s e) e = with_entry s e"
  using with_entry_includes[of s e] by (simp add: with_entry_def)

lemma empty_contract_section:
  "includes_str (render_doc config [] t)
     ''## Contract Implementation\<newline>\<newline>```solidity\<newline>\<newline>```\<newline>''"
proof -
  have "\<exists>b. render_doc config [] t =
          (''# '' @ doc_title config @ ''\<newline>\<newline>'' @ doc_description config @
           ''\<newline>\<newline>## Overview\<newline>\<newline>'' @
           ''This example demonstrates '' @ toLowerCase (doc_description config) @
           ''.\<newline>\<newline>## Key Concepts\<newline>\<newline>'' @
           join ''\<newline>'' (map concept_bullet (doc_concepts config)) @ ''\<newline>\<newline>'') @
          ''## Contract Implementation\<newline>\<newline>```solidity\<newline>\<newline>```\<newline>'' @ b"
    unfolding render_doc_def by simp
  then show ?thesis using includes_str_middle by metis
qed

lemma empty_test_section:
  "includes_str (render_doc config c []) ''```typescript\<newline>\<newline>```\<newline>''"
proof -
  have "\<exists>b. render_doc config c [] =
          (''# '' @ doc_title config @ ''\<newline>\<newline>'' @ doc_description config @
           ''\<newline>\<newline>## Overview\<newline>\<newline>'' @
           ''This example demonstrates '' @ toLowerCase (doc_description config) @
           ''.\<newline>\<newline>## Key Concepts\<newline>\<newline>'' @
           join ''\<newline>'' (map concept_bullet (doc_concepts config)) @ ''\<newline>\<newline>'' @
           ''## Contract Implementation\<newline>\<newline>```solidity\<newline>'' @ c @
           ''\<newline>```\<newline>\<newline>## Test Suite\<newline>\<newline>'' @
           ''The test suite demonstrates both correct usage and common pitfalls:\<newline>\<newline>'') @
          ''```typescript\<newline>\<newline>```\<newline>'' @ b"
    unfolding render_doc_def by simp
  then show ?thesis using includes_str_middle by metis
qed

lemma registered_doc: "js_get DOCS_CONFIG ''fhe-counter'' = Own counter_doc"
  by (simp add: js_get_def DOCS_CONFIG_def counter_doc_def)

lemma strip_prefix_longer: "strip_prefix (d @ [x]) d = None"
proof (cases "strip_prefix (d @ [x]) d")
  case (Some q)
  then have "d = (d @ [x]) @ q" by (simp add: strip_prefix_eq_Some)
  then have "length d = length ((d @ [x]) @ q)" by simp
  then show ?thesis by simp
qed simp

lemma node_at_Nil: "node_at fs [] = Some Dir"
  by (simp add: node_at_def)

declare node_at_Nil [simp]

lemma copy_if_exists_skip:
  "\<not> existsSync (files w) src \<Longrightarrow> copy_if_exists msg src dest w = (Ok (), w)"
  by (simp add: copy_if_exists_def)


lemma forEach_skip:
  "\<not> existsSync (files w) (src x) \<Longrightarrow>
     forEach (\<lambda>x. copy_if_exists (msg x) (src x) (dest x)) (x # xs) w =
     forEach (\<lambda>x. copy_if_exists (msg x) (src x) (dest x)) xs w"
  by (simp add: seq_def bind_def copy_if_exists_skip)




lemma split_on_not_Nil: "split_on c s \<noteq> []"
  by (induction s) (auto split: list.splits)

lemma split_on_append: "split_on c (s @ c # t) = split_on c s @ split_on c t"
  by (induction s) (auto split: list.splits simp: split_on_not_Nil)

lemma split_on_plain: "c \<notin> set e \<Longrightarrow> split_on c e = [e]"
  by (induction e) (auto split: list.splits)

lemma split_on_suffix_plain:
  "c \<notin> set e \<Longrightarrow> split_on c (s @ e) = butlast (split_on c s) @ [last (split_on c s) @ e]"
proof (induction s)
  case Nil then show ?case by (simp add: split_on_plain)
next
  case (Cons x s)
  then show ?case
    by (cases "split_on c s") (auto simp: split_on_not_Nil split: list.splits)
qed

lemma split_on_single_Nil: "split_on c s = [[]] \<longleftrightarrow> s = []"
  by (cases s) (auto simp: split_on_not_Nil split: list.splits)

lemma last_split_on: "last (split_on c s) = [] \<longleftrightarrow> s = [] \<or> last s = c"
proof (induction s)
  case Nil show ?case by simp
next
  case (Cons x s)
  then show ?case
    by (cases "split_on c s") (auto simp: split_on_not_Nil split_on_single_Nil split: list.splits)
qed

lemma split_on_member: "l \<in> set (split_on c s) \<Longrightarrow> \<exists>a b. s = a @ l @ b"
proof (induction s arbitrary: l)
  case Nil then show ?case by simp
next
  case (Cons x s)
  show ?case
  proof (cases "x = c")
    case True
    with Cons.prems have "l = [] \<or> l \<in> set (split_on c s)" by auto
    then show ?thesis
    proof
      assume "l = []" then show ?thesis by (intro exI[of _ "[]"] exI[of _ "x # s"]) simp
    next
      assume "l \<in> set (split_on c s)"
      from Cons.IH[OF this] obtain a b where "s = a @ l @ b" by blast
      then have "x # s = (x # a) @ l @ b" by simp
      then show ?thesis by blast
    qed
  next
    case False
    obtain u us where sp: "split_on c s = u # us" using split_on_not_Nil by (cases "split_on c s") auto
    with False Cons.prems have "l = x # u \<or> l \<in> set us" by auto
    then show ?thesis
    proof
      assume l: "l = x # u"
      have "split_on c s = u # us" by (rule sp)
      have "\<exists>b. s = u @ b" using sp
      proof (induction s arbitrary: u us)
        case Nil then show ?case by simp
      next
        case (Cons y s)
        then show ?case by (cases "split_on c s") (auto split: if_splits list.splits)
      qed
      then obtain b where "s = u @ b" by blast
      then have "x # s = [] @ l @ b" using l by simp
      then show ?thesis by blast
    next
      assume "l \<in> set us"
      then have "l \<in> set (split_on c s)" using sp by simp
      from Cons.IH[OF this] obtain a b where "s = a @ l @ b" by blast
      then have "x # s = (x # a) @ l @ b" by simp
      then show ?thesis by blast
    qed
  qed
qed

lemma split_on_member_includes: "l \<in> set (split_on c s) \<Longrightarrow> includes_str s l"
  using split_on_member[of l c s] includes_str_middle by auto

lemma count_appended_line:
  assumes c: "c \<notin> set e" and e: "e \<noteq> []" and n: "\<not> includes_str s e"
  shows "count_list (split_on c (s @ e @ [c])) e = (if s = [] \<or> last s = c then 1 else 0)"
proof -
  have "split_on c (s @ e @ [c]) = split_on c ((s @ e) @ c # [])" by simp
  also have "\<dots> = split_on c (s @ e) @ [[]]" by (simp only: split_on_append split_on.simps)
  also have "\<dots> = butlast (split_on c s) @ [last (split_on c s) @ e] @ [[]]"
    by (simp add: split_on_suffix_plain[OF c])
  finally have sp: "split_on c (s @ e @ [c]) = butlast (split_on c s) @ [last (split_on c s) @ e] @ [[]]" .
  have "e \<notin> set (butlast (split_on c s))"
    using n split_on_member_includes[of e c s] by (auto dest: in_set_butlastD)
  then have z: "count_list (butlast (split_on c s)) e = 0" by (simp add: count_list_0_iff)
  show ?thesis
    using e z last_split_on[of c s] by (auto simp: sp)
qed

lemma entry_lines_with_entry:
  assumes "CHR ''\<newline>'' \<notin> set e" "e \<noteq> []"
  shows "entry_lines (with_entry s e) e = 1 \<longleftrightarrow>
           (if includes_str s e then entry_lines s e = 1 else s = [] \<or> last s = CHR ''\<newline>'')"
  using count_appended_line[OF assms, of s]
  by (auto simp: entry_lines_def with_entry_def)

lemma known_entry_line:
  assumes "js_get DOCS_CONFIG name = Own config"
  shows "CHR ''\<newline>'' \<notin> set (entryLine name config)" "entryLine name config \<noteq> []"
  using known_doc[OF assms] by (auto simp: entryLine_def auction_doc_def counter_doc_def)

lemma index_after_snoc:
  "index_after (ns @ [n]) =
     (case js_get DOCS_CONFIG n of
        Own config \<Rightarrow> with_entry (index_after ns) (entryLine n config)
      | _ \<Rightarrow> index_after ns)"
  by (simp add: index_after_def split: property.splits)

lemma index_after_known:
  "js_get DOCS_CONFIG name = Own config \<Longrightarrow>
   with_entry (index_after ns) (entryLine name config) = index_after (ns @ [name])"
  by (simp add: index_after_snoc)

lemma index_after_closed:
  "list_all (\<lambda>ns. list_all (\<lambda>n. index_after (ns @ [n])
       \<in> set (map index_after [[], [''blind-auction''], [''fhe-counter''],
                 [''blind-auction'', ''fhe-counter''], [''fhe-counter'', ''blind-auction'']]))
       [''blind-auction'', ''fhe-counter''])
     [[], [''blind-auction''], [''fhe-counter''],
      [''blind-auction'', ''fhe-counter''], [''fhe-counter'', ''blind-auction'']]"
  by code_simp

lemma index_after_lines:
  "list_all (\<lambda>ns. list_all (\<lambda>(n, c). entry_lines (index_after (ns @ [n])) (entryLine n c) = 1)
       DOCS_CONFIG)
     [[], [''blind-auction''], [''fhe-counter''],
      [''blind-auction'', ''fhe-counter''], [''fhe-counter'', ''blind-auction'']]"
  by code_simp

lemma index_after_cases:
  "index_after ns \<in> index_after ` set [[], [''blind-auction''], [''fhe-counter''],
      [''blind-auction'', ''fhe-counter''], [''fhe-counter'', ''blind-auction'']]"
proof (induction ns rule: rev_induct)
  case Nil show ?case by simp
next
  case (snoc n ns)
  let ?orders = "[[], [''blind-auction''], [''fhe-counter''],
      [''blind-auction'', ''fhe-counter''], [''fhe-counter'', ''blind-auction'']]"
  from snoc obtain xs where xs: "xs \<in> set ?orders" "index_after ns = index_after xs" by blast
  show ?case
  proof (cases "js_get DOCS_CONFIG n")
    case (Own config)
    from known_doc[OF Own] have n: "n \<in> set [''blind-auction'', ''fhe-counter'']" by auto
    have "index_after (ns @ [n]) = index_after (xs @ [n])"
      by (simp add: index_after_snoc xs(2) split: property.splits)
    moreover have "index_after (xs @ [n]) \<in> set (map index_after ?orders)"
      using index_after_closed xs(1) n unfolding list_all_iff by blast
    ultimately show ?thesis by simp
  next
    case Inherited with snoc show ?thesis by (simp add: index_after_snoc)
  next
    case Undefined with snoc show ?thesis by (simp add: index_after_snoc)
  qed
qed

lemma index_after_one_line:
  assumes "js_get DOCS_CONFIG name = Own config"
  shows "entry_lines (index_after (ns @ [name])) (entryLine name config) = 1"
proof -
  let ?orders = "[[], [''blind-auction''], [''fhe-counter''],
      [''blind-auction'', ''fhe-counter''], [''fhe-counter'', ''blind-auction'']]"
  from index_after_cases[of ns] obtain xs where
    xs: "xs \<in> set ?orders" "index_after ns = index_after xs" by blast
  have m: "(name, config) \<in> set DOCS_CONFIG"
    using assms by (auto simp: js_get_def split: option.splits if_splits dest: map_of_SomeD)
  have "index_after (ns @ [name]) = index_after (xs @ [name])"
    by (simp add: index_after_snoc xs(2) split: property.splits)
  moreover have "entry_lines (index_after (xs @ [name])) (entryLine name config) = 1"
    using index_after_lines xs(1) m unfolding list_all_iff by blast
  ultimately show ?thesis by simp
qed

section \<open>The concrete scenario: \<^verbatim>\<open>fhe-counter\<close>\<close>

text \<open>
  C1, as stated: the README of the materialized \<^verbatim>\<open>fhe-counter\<close> would contain the
  string "FHE Counter". The run on the sample repository succeeds and writes the README
  that \<^verbatim>\<open>generateReadme\<close> renders; its heading is the capitalized identifier, and the
  string "FHE Counter" occurs nowhere in it.
\<close>

theorem fhe_counter_readme_lacks_title:
  "fst (createExample sample_env ''fhe-counter'' [''out'', ''x''] sample_world) = Ok ()
   \<and> file_text (files (snd (createExample sample_env ''fhe-counter'' [''out'', ''x''] sample_world)))
        [''out'', ''x'', ''README.md''] = Some (generateReadme ''fhe-counter'' counter_example)
   \<and> \<not> includes_str (generateReadme ''fhe-counter'' counter_example) ''FHE Counter''"
proof -
  have "file_text (files (snd (createExample sample_env ''fhe-counter'' [''out'', ''x''] sample_world)))
        ([''out'', ''x''] @ [''README.md'']) = Some (generateReadme ''fhe-counter'' counter_example)"
    using createExample_readme[OF run_pair[OF sample_counter_run] registered_samples(1)] .
  moreover have "\<not> includes_str (generateReadme ''fhe-counter'' counter_example) ''FHE Counter''"
    by (simp add: generateReadme_def counter_example_def capitalize_def upper_char_def lower_char_def
      toLowerCase_def lower_letters_def upper_letters_def basename_def)
  ultimately show ?thesis using sample_counter_run by simp
qed

text \<open>
  C1, amended: when \<^verbatim>\<open>createExample\<close> returns for \<^verbatim>\<open>fhe-counter\<close>, with the
  contract and the test of the catalog entry present in the repository (outside the
  output directory) and a template manifest that parses to an object, the destination
  holds \<^verbatim>\<open>contracts/FHECounter.sol\<close> and \<^verbatim>\<open>test/FHECounter.ts\<close> with the contents of
  their sources, a \<^verbatim>\<open>README.md\<close> whose text contains "Fhe-counter - FHEVM Example", and
  a \<^verbatim>\<open>package.json\<close> whose \<^verbatim>\<open>name\<close> field is "fhevm-fhe-counter".
\<close>

theorem fhe_counter_materialized:
  assumes run: "createExample env ''fhe-counter'' dst w = (Ok (), w')"
      and contract: "map_of (files w) (root env @ [''contracts'', ''basic'', ''FHECounter.sol'']) = Some (File c)"
      and test: "map_of (files w) (root env @ [''test'', ''basic'', ''FHECounter.ts'']) = Some (File t)"
      and contract_outside: "strip_prefix dst (root env @ [''contracts'', ''basic'', ''FHECounter.sol'']) = None"
      and test_outside: "strip_prefix dst (root env @ [''test'', ''basic'', ''FHECounter.ts'']) = None"
      and manifest: "map_of (files w) (templateDir env @ [''package.json'']) = Some (File mtext)"
      and object: "JSON_parse env mtext = Some (JObj kvs)"
  shows "file_text (files w') (dst @ [''contracts'', ''FHECounter.sol'']) = Some c
       \<and> file_text (files w') (dst @ [''test'', ''FHECounter.ts'']) = Some t
       \<and> (\<exists>readme. file_text (files w') (dst @ [''README.md'']) = Some readme
             \<and> includes_str readme ''Fhe-counter - FHEVM Example'')
       \<and> (\<exists>doc. file_text (files w') (dst @ [''package.json'']) = Some (JSON_stringify env doc)
             \<and> get_property ''name'' doc = Some (JStr ''fhevm-fhe-counter''))"
proof -
  have known: "js_get EXAMPLES_MAP ''fhe-counter'' = Own counter_example"
    by (rule registered_samples)
  from createExample_Ok[OF run known] obtain w3 where
    prep: "prepare_destination env
             (emoji_rocket @ '' Creating '' @ ''fhe-counter'' @ '' example in '' @ join ''/'' dst) dst w = (Ok (), w3)"
    and over: "overlay_example env ''fhe-counter'' dst counter_example w3 = (Ok (), w')" by blast
  note facts = prepare_destination_facts[OF prep]
  have c3: "map_of (files w3) (root env @ [''contracts'', ''basic'', ''FHECounter.sol'']) = Some (File c)"
    using facts(2)[OF contract contract_outside] .
  have t3: "map_of (files w3) (root env @ [''test'', ''basic'', ''FHECounter.ts'']) = Some (File t)"
    using facts(2)[OF test test_outside] .
  have hid: "\<not> hidden ''package.json''" by (simp add: hidden_def)
  have m3: "map_of (files w3) (dst @ [''package.json'']) = Some (File mtext)"
    using facts(3)[OF manifest hid] .
  from overlay_example_Ok[OF over example_paths(1) example_paths(2)] contract_outside test_outside
  obtain mtext' j0 where
    m: "map_of (files w3) (dst @ [''package.json'']) = Some (File mtext')"
       "JSON_parse env mtext' = Some j0"
    and all: "\<And>p. map_of (files w') p =
              (if p = dst @ [''package.json'']
               then Some (File (JSON_stringify env
                      (rewritten (''fhevm-'' @ ''fhe-counter'') (ex_description counter_example)
                         (FIXED_KEYWORDS @ [ex_category counter_example]) j0)))
               else if p = dst @ [''README.md''] then Some (File (generateReadme ''fhe-counter'' counter_example))
               else if p = dst @ [''test'', ''FHECounter.ts''] \<and>
                       existsSync (files w3) (root env @ [''test'', ''basic'', ''FHECounter.ts''])
               then map_of (files w3) (root env @ [''test'', ''basic'', ''FHECounter.ts''])
               else if p = dst @ [''contracts'', ''FHECounter.sol''] \<and>
                       existsSync (files w3) (root env @ [''contracts'', ''basic'', ''FHECounter.sol''])
               then map_of (files w3) (root env @ [''contracts'', ''basic'', ''FHECounter.sol''])
               else map_of (files w3) p)"
    unfolding example_paths by blast
  from m m3 object have j0: "j0 = JObj kvs" by simp
  have e: "existsSync (files w3) (root env @ [''contracts'', ''basic'', ''FHECounter.sol''])"
          "existsSync (files w3) (root env @ [''test'', ''basic'', ''FHECounter.ts''])"
    using c3 t3 by (simp_all add: existsSync_def node_at_def)
  have "file_text (files w') (dst @ [''contracts'', ''FHECounter.sol'']) = Some c"
    using all[of "dst @ [''contracts'', ''FHECounter.sol'']"] e c3 by (simp add: file_text_map_of)
  moreover have "file_text (files w') (dst @ [''test'', ''FHECounter.ts'']) = Some t"
    using all[of "dst @ [''test'', ''FHECounter.ts'']"] e t3 by (simp add: file_text_map_of)
  moreover have "file_text (files w') (dst @ [''README.md'']) = Some (generateReadme ''fhe-counter'' counter_example)"
    using all[of "dst @ [''README.md'']"] by (simp add: file_text_map_of)
  moreover have "includes_str (generateReadme ''fhe-counter'' counter_example) ''Fhe-counter - FHEVM Example''"
    using readme_heading[of "''fhe-counter''" counter_example]
    by (simp add: capitalize_def upper_char_def lower_letters_def upper_letters_def)
  moreover have "file_text (files w') (dst @ [''package.json'']) =
      Some (JSON_stringify env (rewritten (''fhevm-'' @ ''fhe-counter'') (ex_description counter_example)
                         (FIXED_KEYWORDS @ [ex_category counter_example]) (JObj kvs)))"
    using all[of "dst @ [''package.json'']"] j0 by (simp add: file_text_map_of)
  moreover have "get_property ''name'' (rewritten (''fhevm-'' @ ''fhe-counter'') (ex_description counter_example)
                         (FIXED_KEYWORDS @ [ex_category counter_example]) (JObj kvs)) = Some (JStr ''fhevm-fhe-counter'')"
    by (simp add: rewritten_fields)
  ultimately show ?thesis by blast
qed

theorem fhe_counter_materialized_witness:
  "createExample sample_env ''fhe-counter'' [''out'', ''x''] sample_world
     = (Ok (), snd (createExample sample_env ''fhe-counter'' [''out'', ''x''] sample_world))
   \<and> map_of (files sample_world) (root sample_env @ [''contracts'', ''basic'', ''FHECounter.sol''])
       = Some (File ''contract FHECounter {}'')
   \<and> map_of (files sample_world) (root sample_env @ [''test'', ''basic'', ''FHECounter.ts''])
       = Some (File ''describe(FHECounter)'')
   \<and> strip_prefix [''out'', ''x''] (root sample_env @ [''contracts'', ''basic'', ''FHECounter.sol'']) = None
   \<and> strip_prefix [''out'', ''x''] (root sample_env @ [''test'', ''basic'', ''FHECounter.ts'']) = None
   \<and> map_of (files sample_world) (templateDir sample_env @ [''package.json''])
       = Some (File ''<template manifest>'')
   \<and> JSON_parse sample_env ''<template manifest>''
       = Some (JObj [(''name'', JStr ''fhevm-hardhat-template''), (''version'', JStr ''0.1.0''),
                     (''keywords'', JArr [JStr ''template''])])
   \<and> file_text (files (snd (createExample sample_env ''fhe-counter'' [''out'', ''x''] sample_world)))
        [''out'', ''x'', ''contracts'', ''FHECounter.sol''] = Some ''contract FHECounter {}''
   \<and> file_text (files (snd (createExample sample_env ''fhe-counter'' [''out'', ''x''] sample_world)))
        [''out'', ''x'', ''test'', ''FHECounter.ts''] = Some ''describe(FHECounter)''
   \<and> (\<exists>readme. file_text (files (snd (createExample sample_env ''fhe-counter'' [''out'', ''x''] sample_world)))
                   [''out'', ''x'', ''README.md''] = Some readme
          \<and> includes_str readme ''Fhe-counter - FHEVM Example'')
   \<and> (\<exists>doc. file_text (files (snd (createExample sample_env ''fhe-counter'' [''out'', ''x''] sample_world)))
                [''out'', ''x'', ''package.json''] = Some (JSON_stringify sample_env doc)
          \<and> get_property ''name'' doc = Some (JStr ''fhevm-fhe-counter''))"
proof -
  have run: "createExample sample_env ''fhe-counter'' [''out'', ''x''] sample_world
     = (Ok (), snd (createExample sample_env ''fhe-counter'' [''out'', ''x''] sample_world))"
    using sample_counter_run by (rule run_pair)
  have c: "map_of (files sample_world) (root sample_env @ [''contracts'', ''basic'', ''FHECounter.sol''])
       = Some (File ''contract FHECounter {}'')"
    by (simp add: sample_world_def sample_files_def sample_env_def)
  have t: "map_of (files sample_world) (root sample_env @ [''test'', ''basic'', ''FHECounter.ts''])
       = Some (File ''describe(FHECounter)'')"
    by (simp add: sample_world_def sample_files_def sample_env_def)
  have co: "strip_prefix [''out'', ''x''] (root sample_env @ [''contracts'', ''basic'', ''FHECounter.sol'']) = None"
    by (simp add: sample_env_def)
  have to: "strip_prefix [''out'', ''x''] (root sample_env @ [''test'', ''basic'', ''FHECounter.ts'']) = None"
    by (simp add: sample_env_def)
  have m: "map_of (files sample_world) (templateDir sample_env @ [''package.json''])
       = Some (File ''<template manifest>'')"
    by (simp add: sample_world_def sample_files_def sample_env_def templateDir_def path_join_def path_step_def)
  have p: "JSON_parse sample_env ''<template manifest>''
       = Some (JObj [(''name'', JStr ''fhevm-hardhat-template''), (''version'', JStr ''0.1.0''),
                     (''keywords'', JArr [JStr ''template''])])"
    by (simp add: sample_env_def sample_codec_def sample_manifest_def)
  show ?thesis
    using fhe_counter_materialized [OF run c t co to m p] run c t co to m p
    by simp
qed

section \<open>The rewritten manifest\<close>




section \<open>A missing base template\<close>

text \<open>
  C4, as stated: with the base template absent, the generator would abort before the
  destination directory is created. In the repository without its template the run of
  \<^verbatim>\<open>fhe-counter\<close> into \<^verbatim>\<open>out/x\<close> does fail, at the copy command, but by then
  \<^verbatim>\<open>out/x\<close>, absent before, is a directory.
\<close>

theorem destination_created_before_template_check:
  "node_at (files bare_world) (templateDir sample_env) = None
   \<and> node_at (files bare_world) [''out'', ''x''] = None
   \<and> fst (createExample sample_env ''fhe-counter'' [''out'', ''x''] bare_world)
       = Throw (CommandFailed ''cp -r'')
   \<and> node_at (files (snd (createExample sample_env ''fhe-counter'' [''out'', ''x''] bare_world)))
        [''out'', ''x''] = Some Dir"
  by code_simp

text \<open>
  C4, amended: if the base template directory is absent (and the output directory does
  not lie inside the template's path), materializing a known identifier is fatal: the
  copy command fails and nothing after it runs. The output directory has been created
  before, if it did not exist; no other change is made to the file system.
\<close>

theorem template_missing_is_fatal:
  assumes "node_at (files w) (templateDir env) = None"
      and "strip_prefix (templateDir env) dst = None"
  shows "(js_get EXAMPLES_MAP name = Own config \<longrightarrow>
            (\<exists>e. fst (createExample env name dst w) = Throw e) \<and>
            files (snd (createExample env name dst w)) =
              (if existsSync (files w) dst then files w
               else case mkdir_walk [] dst (files w) of Inr fs' \<Rightarrow> fs' | Inl _ \<Rightarrow> files w))
       \<and> (js_get CATEGORIES cname = Own category \<longrightarrow>
            (\<exists>e. fst (createCategory env cname dst w) = Throw e) \<and>
            files (snd (createCategory env cname dst w)) =
              (if existsSync (files w) dst then files w
               else case mkdir_walk [] dst (files w) of Inr fs' \<Rightarrow> fs' | Inl _ \<Rightarrow> files w))
       \<and> (\<forall>fs'. \<not> existsSync (files w) dst \<longrightarrow> mkdir_walk [] dst (files w) = Inr fs' \<longrightarrow>
            node_at fs' dst = Some Dir)"
proof (intro conjI impI allI)
  fix fs' assume "\<not> existsSync (files w) dst" "mkdir_walk [] dst (files w) = Inr fs'"
  then show "node_at fs' dst = Some Dir"
    using mkdir_walk_creates[of "[]" dst "files w" fs'] by (auto simp: existsSync_def node_at_def)
next
  assume k: "js_get EXAMPLES_MAP name = Own config"
  let ?b = "emoji_rocket @ '' Creating '' @ name @ '' example in '' @ join ''/'' dst"
  from prepare_no_template(1)[OF assms, of ?b] obtain e
    where e: "fst (prepare_destination env ?b dst w) = Throw e" by blast
  have run: "createExample env name dst w = (Throw e, snd (prepare_destination env ?b dst w))"
    using k seq_Throw[where m="prepare_destination env ?b dst" and w=w, OF e]
    by (simp add: createExample_def)
  show "\<exists>e. fst (createExample env name dst w) = Throw e" using run by simp
  show "files (snd (createExample env name dst w)) =
              (if existsSync (files w) dst then files w
               else case mkdir_walk [] dst (files w) of Inr fs' \<Rightarrow> fs' | Inl _ \<Rightarrow> files w)"
    using run prepare_no_template(2)[OF assms, of ?b] by simp
next
  assume k: "js_get CATEGORIES cname = Own category"
  let ?b = "emoji_rocket @ '' Creating '' @ cname @ '' category project in '' @ join ''/'' dst"
  from prepare_no_template(1)[OF assms, of ?b] obtain e
    where e: "fst (prepare_destination env ?b dst w) = Throw e" by blast
  have run: "createCategory env cname dst w = (Throw e, snd (prepare_destination env ?b dst w))"
    using k seq_Throw[where m="prepare_destination env ?b dst" and w=w, OF e]
    by (simp add: createCategory_def)
  show "\<exists>e. fst (createCategory env cname dst w) = Throw e" using run by simp
  show "files (snd (createCategory env cname dst w)) =
              (if existsSync (files w) dst then files w
               else case mkdir_walk [] dst (files w) of Inr fs' \<Rightarrow> fs' | Inl _ \<Rightarrow> files w)"
    using run prepare_no_template(2)[OF assms, of ?b] by simp
qed

theorem template_missing_is_fatal_witness:
  "node_at (files bare_world) (templateDir sample_env) = None
   \<and> strip_prefix (templateDir sample_env) [''out'', ''x''] = None
   \<and> js_get EXAMPLES_MAP ''fhe-counter'' = Own counter_example
   \<and> js_get CATEGORIES ''basic'' = Own basic_category
   \<and> \<not> existsSync (files bare_world) [''out'', ''x'']
   \<and> (\<exists>e. fst (createExample sample_env ''fhe-counter'' [''out'', ''x''] bare_world) = Throw e)
   \<and> (\<exists>e. fst (createCategory sample_env ''basic'' [''out'', ''x''] bare_world) = Throw e)
   \<and> (\<exists>fs'. mkdir_walk [] [''out'', ''x''] (files bare_world) = Inr fs'
          \<and> files (snd (createExample sample_env ''fhe-counter'' [''out'', ''x''] bare_world)) = fs'
          \<and> files (snd (createCategory sample_env ''basic'' [''out'', ''x''] bare_world)) = fs'
          \<and> node_at fs' [''out'', ''x''] = Some Dir)"
proof -
  have a: "node_at (files bare_world) (templateDir sample_env) = None"
    by (simp add: bare_world_def templateDir_def sample_env_def path_join_def path_step_def node_at_def)
  have b: "strip_prefix (templateDir sample_env) [''out'', ''x''] = None"
    by (simp add: templateDir_def sample_env_def path_join_def path_step_def)
  have c: "\<not> existsSync (files bare_world) [''out'', ''x'']"
    by (simp add: existsSync_def node_at_def bare_world_def)
  have d: "mkdir_walk [] [''out'', ''x''] (files bare_world) =
             Inr (files bare_world @ [([''out''], Dir), ([''out'', ''x''], Dir)])"
    by (simp add: bare_world_def node_at_def)
  show ?thesis
    using template_missing_is_fatal [OF a b, of "''fhe-counter''" counter_example "''basic''" basic_category]
      registered_samples a b c d
    by simp
qed

section \<open>Files that a materialization leaves alone\<close>




section \<open>Unknown identifiers\<close>

lemma Object_keys_EXAMPLES_MAP: "Object_keys EXAMPLES_MAP = [''blind-auction'', ''fhe-counter'']"
  by (simp add: Object_keys_def EXAMPLES_MAP_def)

lemma Object_keys_CATEGORIES: "Object_keys CATEGORIES = [''auctions'', ''basic'']"
  by (simp add: Object_keys_def CATEGORIES_def)

text \<open>
  For a name that the catalog object neither holds nor inherits, the guard of the
  generators does what it is there for: the "not found" line goes to standard error, the
  valid identifiers to standard output (they are printed with \<^verbatim>\<open>console.log\<close>), the
  process ends with status 1 and the file system is as it was.
\<close>

lemma guard_rejects_undefined:
  "(js_get EXAMPLES_MAP name = Undefined \<longrightarrow>
      createExample env name outputDir w =
        (Exit 1, w\<lparr>console := console w @
           [(Stderr, emoji_cross @ '' Example '' @ quote @ name @ quote @ '' not found''),
            (Stdout, ''Available examples: blind-auction, fhe-counter'')]\<rparr>))
   \<and> (js_get CATEGORIES name = Undefined \<longrightarrow>
      createCategory env name outputDir w =
        (Exit 1, w\<lparr>console := console w @
           [(Stderr, emoji_cross @ '' Category '' @ quote @ name @ quote @ '' not found''),
            (Stdout, ''Available categories: auctions, basic'')]\<rparr>))"
  by (simp add: createExample_def createCategory_def seq_def bind_def console_error_def
      console_log_def process_exit_def Object_keys_EXAMPLES_MAP Object_keys_CATEGORIES)

text \<open>
  C6: the example generator is asked for \<^verbatim>\<open>constructor\<close> and the category generator for
  \<^verbatim>\<open>__proto__\<close>, neither of which is registered. The guards \<^verbatim>\<open>!EXAMPLES_MAP[exampleName]\<close>
  and \<^verbatim>\<open>!CATEGORIES[categoryName]\<close> find the inherited property and let the name pass:
  nothing is printed on standard error and no list of identifiers anywhere, the output
  directory, absent before, is created and the base template copied into it, and only
  then does the run end, with a \<^verbatim>\<open>TypeError\<close>.
\<close>

theorem inherited_name_is_materialized:
  "map_of EXAMPLES_MAP ''constructor'' = None
   \<and> map_of CATEGORIES ''__proto__'' = None
   \<and> node_at (files sample_world) [''out'', ''x''] = None
   \<and> fst (createExample sample_env ''constructor'' [''out'', ''x''] sample_world)
       = Throw (TypeError ''The path argument must be of type string'')
   \<and> printed Stderr (snd (createExample sample_env ''constructor'' [''out'', ''x''] sample_world)) = []
   \<and> printed Stdout (snd (createExample sample_env ''constructor'' [''out'', ''x''] sample_world))
       = [emoji_rocket @ '' Creating constructor example in out/x'',
          emoji_folder @ '' Copying base template...'']
   \<and> node_at (files (snd (createExample sample_env ''constructor'' [''out'', ''x''] sample_world)))
        [''out'', ''x''] = Some Dir
   \<and> node_at (files (snd (createExample sample_env ''constructor'' [''out'', ''x''] sample_world)))
        [''out'', ''x'', ''package.json''] = Some (File ''<template manifest>'')
   \<and> fst (createCategory sample_env ''__proto__'' [''out'', ''x''] sample_world)
       = Throw (TypeError ''Cannot read properties of undefined (reading length)'')
   \<and> printed Stderr (snd (createCategory sample_env ''__proto__'' [''out'', ''x''] sample_world)) = []
   \<and> node_at (files (snd (createCategory sample_env ''__proto__'' [''out'', ''x''] sample_world)))
        [''out'', ''x'', ''package.json''] = Some (File ''<template manifest>'')"
  by code_simp

section \<open>The category README\<close>

text \<open>
  C9, as stated: \<^verbatim>\<open>encrypt-single-value\<close>, which the example catalog does not hold,
  would be rendered with the fallback description. The description table has an entry
  for it, and the bullet lines of the category \<^verbatim>\<open>basic\<close> show that entry's text.
\<close>

theorem encrypt_single_value_has_description:
  "map_of EXAMPLES_MAP ''encrypt-single-value'' = None
   \<and> map_of descriptions ''encrypt-single-value'' = Some ''Basic FHE encryption patterns''
   \<and> getExampleDescription ''encrypt-single-value'' = Str ''Basic FHE encryption patterns''
   \<and> cat_examples basic_category = [''fhe-counter'', ''encrypt-single-value'']
   \<and> map example_bullet (cat_examples basic_category) =
       [''- **fhe-counter** - Simple encrypted counter demonstrating FHE basics'',
        ''- **encrypt-single-value** - Basic FHE encryption patterns'']"
  by (simp add: EXAMPLES_MAP_def descriptions_def getExampleDescription_def js_get_def
      basic_category_def example_bullet_def to_string_def)

text \<open>
  C9, amended: the README of a category holds, under its heading "Examples Included", one
  bullet line per identifier of the category's list of examples, in the order of the
  list. An identifier that the description table neither holds nor inherits is shown with
  the fallback description "FHEVM example"; \<^verbatim>\<open>encrypt-single-value\<close> has an entry of
  its own in the table and is shown with "Basic FHE encryption patterns".
\<close>

theorem category_readme_bullets:
  "includes_str (generateCategoryReadme categoryName config)
     (''## Examples Included\<newline>\<newline>'' @
      join ''\<newline>'' (map example_bullet (cat_examples config)) @
      ''\<newline>\<newline>## Quick Start'')
   \<and> (js_get descriptions example = Undefined \<longrightarrow>
        example_bullet example = ''- **'' @ example @ ''** - FHEVM example'')
   \<and> example_bullet ''encrypt-single-value'' =
        ''- **encrypt-single-value** - Basic FHE encryption patterns''"
proof (intro conjI impI)
  have "\<exists>a b. generateCategoryReadme categoryName config =
          a @ (''## Examples Included\<newline>\<newline>'' @
               join ''\<newline>'' (map example_bullet (cat_examples config)) @
               ''\<newline>\<newline>## Quick Start'') @ b"
    unfolding generateCategoryReadme_def
    by (rule exI[of _ "''# '' @ capitalize categoryName @ '' Examples - FHEVM\<newline>\<newline>'' @
           cat_description config @ ''\<newline>\<newline>## Overview\<newline>\<newline>'' @
           ''This project contains multiple FHEVM examples demonstrating '' @
           toLowerCase (cat_description config) @ ''.\<newline>\<newline>''"]) simp
  then show "includes_str (generateCategoryReadme categoryName config)
     (''## Examples Included\<newline>\<newline>'' @
      join ''\<newline>'' (map example_bullet (cat_examples config)) @
      ''\<newline>\<newline>## Quick Start'')"
    using includes_str_middle by metis
next
  assume "js_get descriptions example = Undefined"
  then show "example_bullet example = ''- **'' @ example @ ''** - FHEVM example''"
    by (simp add: example_bullet_def getExampleDescription_def to_string_def)
next
  show "example_bullet ''encrypt-single-value'' =
        ''- **encrypt-single-value** - Basic FHE encryption patterns''"
    by (simp add: example_bullet_def getExampleDescription_def to_string_def js_get_def
        descriptions_def)
qed

theorem category_readme_bullets_witness:
  "js_get descriptions ''confidential-vote'' = Undefined
   \<and> example_bullet ''confidential-vote'' = ''- **confidential-vote** - FHEVM example''
   \<and> includes_str (generateCategoryReadme ''basic'' basic_category)
        (''## Examples Included\<newline>\<newline>'' @
         join ''\<newline>'' (map example_bullet [''fhe-counter'', ''encrypt-single-value'']) @
         ''\<newline>\<newline>## Quick Start'')"
proof -
  have u: "js_get descriptions ''confidential-vote'' = Undefined"
    by (simp add: js_get_def descriptions_def OBJECT_PROTOTYPE_def)
  have c: "cat_examples basic_category = [''fhe-counter'', ''encrypt-single-value'']"
    by (simp add: basic_category_def)
  show ?thesis
    using category_readme_bullets [of "''basic''" basic_category "''confidential-vote''"] u
    by (simp only: c) simp
qed

section \<open>Names inherited from \<^verbatim>\<open>Object.prototype\<close>\<close>

text \<open>
  C10: the documentation generator is asked for \<^verbatim>\<open>constructor\<close>, which is not
  registered in \<^verbatim>\<open>DOCS_CONFIG\<close>. The guard \<^verbatim>\<open>!DOCS_CONFIG[exampleName]\<close> finds the
  inherited property and lets the name pass; the output directory, absent before, is
  created, and only then does \<^verbatim>\<open>path.join\<close> throw.
\<close>

theorem generateDocs_inherited_name_creates_directory:
  "map_of DOCS_CONFIG ''constructor'' = None
   \<and> node_at (files sample_world) [''docs''] = None
   \<and> fst (generateDocs sample_env ''constructor'' [''docs''] sample_world)
       = Throw (TypeError ''The path argument must be of type string'')
   \<and> node_at (files (snd (generateDocs sample_env ''constructor'' [''docs''] sample_world)))
        [''docs''] = Some Dir"
  by code_simp

section \<open>Documents for missing sources\<close>

text \<open>
  C8: for a known example identifier, let the output directory be there (found, or
  created by the generator), and let neither the two source paths nor the paths of the
  document and of the index be directories. Then \<^verbatim>\<open>generateDocs\<close> returns normally and
  writes the document; if the contract source is missing, the document holds the
  \<^verbatim>\<open>solidity\<close> fence with nothing in it, and if the test source is missing, the
  \<^verbatim>\<open>typescript\<close> fence with nothing in it.
\<close>

theorem missing_source_gives_empty_section:
  assumes known: "js_get DOCS_CONFIG name = Own config"
      and cpath: "getContractPath env name = Inr cpath"
      and tpath: "getTestPath env name = Inr tpath"
      and dir: "if existsSync (files w) dst then fs1 = files w
                else mkdir_walk [] dst (files w) = Inr fs1"
      and dst_dir: "node_at fs1 dst = Some Dir"
      and contract: "node_at fs1 cpath \<noteq> Some Dir"
      and test: "node_at fs1 tpath \<noteq> Some Dir"
      and doc_path: "node_at fs1 (path_join dst [name @ ''.md'']) \<noteq> Some Dir"
      and index_path: "node_at fs1 (dst @ [''SUMMARY.md'']) \<noteq> Some Dir"
  shows "fst (generateDocs env name dst w) = Ok ()
       \<and> (\<exists>doc. file_text (files (snd (generateDocs env name dst w))) (path_join dst [name @ ''.md''])
                   = Some doc
             \<and> (\<not> existsSync fs1 cpath \<longrightarrow>
                  includes_str doc
                    ''## Contract Implementation\<newline>\<newline>```solidity\<newline>\<newline>```\<newline>'')
             \<and> (\<not> existsSync fs1 tpath \<longrightarrow>
                  includes_str doc ''```typescript\<newline>\<newline>```\<newline>''))"
proof -
  from known_doc_paths[OF known, of env dst] cpath tpath obtain dn where
    dp: "path_join dst [name @ ''.md''] = dst @ [dn]" and dn: "dn \<noteq> ''SUMMARY.md''" by auto
  note I = generateDocs_OkI[OF known cpath tpath dp dn dir dst_dir contract test
      doc_path[unfolded dp] index_path]
  let ?doc = "render_doc config (source_text fs1 cpath) (source_text fs1 tpath)"
  have "file_text (files (snd (generateDocs env name dst w))) (dst @ [dn]) = Some ?doc"
    using dn by (simp add: I(2) file_text_def node_at_update)
  moreover have "\<not> existsSync fs1 cpath \<longrightarrow> includes_str ?doc
      ''## Contract Implementation\<newline>\<newline>```solidity\<newline>\<newline>```\<newline>''"
    using empty_contract_section[of config "source_text fs1 tpath"]
    by (auto simp: existsSync_def source_text_def)
  moreover have "\<not> existsSync fs1 tpath \<longrightarrow> includes_str ?doc ''```typescript\<newline>\<newline>```\<newline>''"
    using empty_test_section[of config "source_text fs1 cpath"]
    by (auto simp: existsSync_def source_text_def)
  ultimately show ?thesis using I(1) unfolding dp by blast
qed

theorem missing_source_gives_empty_section_witness:
  "js_get DOCS_CONFIG ''fhe-counter'' = Own counter_doc
   \<and> getContractPath sample_env ''fhe-counter'' = Inr [''repo'', ''contracts'', ''basic'', ''FHECounter.sol'']
   \<and> getTestPath sample_env ''fhe-counter'' = Inr [''repo'', ''test'', ''basic'', ''FHECounter.ts'']
   \<and> \<not> existsSync (files no_contract_world) [''docs'']
   \<and> mkdir_walk [] [''docs''] (files no_contract_world) = Inr (files no_contract_world @ [([''docs''], Dir)])
   \<and> \<not> existsSync (files no_contract_world @ [([''docs''], Dir)])
          [''repo'', ''contracts'', ''basic'', ''FHECounter.sol'']
   \<and> fst (generateDocs sample_env ''fhe-counter'' [''docs''] no_contract_world) = Ok ()
   \<and> (\<exists>doc. file_text (files (snd (generateDocs sample_env ''fhe-counter'' [''docs''] no_contract_world)))
                [''docs'', ''fhe-counter.md''] = Some doc
          \<and> includes_str doc
               ''## Contract Implementation\<newline>\<newline>```solidity\<newline>\<newline>```\<newline>'')"
proof -
  let ?fs1 = "files no_contract_world @ [([''docs''], Dir)]"
  have cp: "getContractPath sample_env ''fhe-counter'' = Inr [''repo'', ''contracts'', ''basic'', ''FHECounter.sol'']"
    and tp: "getTestPath sample_env ''fhe-counter'' = Inr [''repo'', ''test'', ''basic'', ''FHECounter.ts'']"
    by (simp_all add: doc_paths sample_env_def)
  have ne: "\<not> existsSync (files no_contract_world) [''docs'']"
    by (simp add: existsSync_def node_at_def no_contract_world_def sample_files_def)
  have mk: "mkdir_walk [] [''docs''] (files no_contract_world) = Inr ?fs1"
    by (simp add: node_at_def no_contract_world_def sample_files_def)
  have dir: "if existsSync (files no_contract_world) [''docs''] then ?fs1 = files no_contract_world
             else mkdir_walk [] [''docs''] (files no_contract_world) = Inr ?fs1"
    using ne mk by simp
  have a: "node_at ?fs1 [''docs''] = Some Dir"
    "node_at ?fs1 [''repo'', ''contracts'', ''basic'', ''FHECounter.sol''] \<noteq> Some Dir"
    "node_at ?fs1 [''repo'', ''test'', ''basic'', ''FHECounter.ts''] \<noteq> Some Dir"
    "node_at ?fs1 (path_join [''docs''] [''fhe-counter'' @ ''.md'']) \<noteq> Some Dir"
    "node_at ?fs1 ([''docs''] @ [''SUMMARY.md'']) \<noteq> Some Dir"
    "\<not> existsSync ?fs1 [''repo'', ''contracts'', ''basic'', ''FHECounter.sol'']"
    by (simp_all add: existsSync_def node_at_def no_contract_world_def sample_files_def
        path_join_def path_step_def)
  have p: "path_join [''docs''] [''fhe-counter'' @ ''.md''] = [''docs'', ''fhe-counter.md'']"
    by (simp add: path_join_def path_step_def)
  show ?thesis
    using missing_source_gives_empty_section [OF registered_doc cp tp dir a(1) a(2) a(3) a(4) a(5)]
      registered_doc cp tp ne mk a(6)
    unfolding p by blast
qed

section \<open>Generating a document twice\<close>

text \<open>The index that a run for the auction writes in the sample repository.\<close>

lemma auction_index_written:
  "fst (generateDocs sample_env ''blind-auction'' [''docs''] sample_world) = Ok ()
   \<and> file_text (files (snd (generateDocs sample_env ''blind-auction'' [''docs''] sample_world)))
        [''docs'', ''SUMMARY.md''] = Some auction_index
   \<and> auction_index = index_after [''blind-auction'']"
  by code_simp

text \<open>
  C5, as stated: two runs would always leave an index with exactly one entry line for
  the identifier. The entry is added when its text occurs nowhere in the index, and
  nothing is ever taken out: an index that carries the counter's line twice still
  carries it twice after two runs for the counter.
\<close>

theorem duplicate_entries_are_kept:
  "js_get DOCS_CONFIG ''fhe-counter'' = Own counter_doc
   \<and> file_text (files merged_world) [''docs'', ''SUMMARY.md''] = Some merged_index
   \<and> fst (generateDocs sample_env ''fhe-counter'' [''docs''] merged_world) = Ok ()
   \<and> fst (generateDocs sample_env ''fhe-counter'' [''docs'']
             (snd (generateDocs sample_env ''fhe-counter'' [''docs''] merged_world))) = Ok ()
   \<and> file_text (files (snd (generateDocs sample_env ''fhe-counter'' [''docs'']
             (snd (generateDocs sample_env ''fhe-counter'' [''docs''] merged_world)))))
        [''docs'', ''SUMMARY.md''] = Some merged_index
   \<and> entry_lines merged_index (entryLine ''fhe-counter'' counter_doc) = 2"
  by code_simp

text \<open>
  C5, amended: for a known example identifier, when a first run of \<^verbatim>\<open>generateDocs\<close> has
  returned, a second run on the result returns as well and leaves every file as the
  first run left it: the document of the identifier is the same text, and the index is
  the same text. The index is the one from before the first run (the skeleton when
  there was none), with the entry line added at its end unless its text occurred in it;
  so it contains that text. Exactly one of its lines is the entry line if and only if
  the index before the first run either contained the text and had exactly one such
  line, or did not contain it and was empty or ended with a newline. That is so
  whenever the index before the first run was missing or had been left by earlier runs
  of the generator that started without an index; the index is then the one that these
  runs and one more for the identifier leave.
\<close>

theorem docs_generation_idempotent:
  assumes known: "js_get DOCS_CONFIG name = Own config"
      and first: "generateDocs env name dst w = (Ok (), w1)"
  shows "\<exists>w2 doc index.
           generateDocs env name dst w1 = (Ok (), w2)
         \<and> (\<forall>p. map_of (files w2) p = map_of (files w1) p)
         \<and> file_text (files w1) (path_join dst [name @ ''.md'']) = Some doc
         \<and> file_text (files w2) (path_join dst [name @ ''.md'']) = Some doc
         \<and> file_text (files w1) (dst @ [''SUMMARY.md'']) = Some index
         \<and> file_text (files w2) (dst @ [''SUMMARY.md'']) = Some index
         \<and> index = with_entry (summary_before (files w) (dst @ [''SUMMARY.md'']))
                      (entryLine name config)
         \<and> includes_str index (entryLine name config)
         \<and> (entry_lines index (entryLine name config) = 1 \<longleftrightarrow>
              (if includes_str (summary_before (files w) (dst @ [''SUMMARY.md'']))
                    (entryLine name config)
               then entry_lines (summary_before (files w) (dst @ [''SUMMARY.md'']))
                      (entryLine name config) = 1
               else summary_before (files w) (dst @ [''SUMMARY.md'']) = [] \<or>
                    last (summary_before (files w) (dst @ [''SUMMARY.md''])) = CHR ''\<newline>''))
         \<and> (\<forall>names. summary_before (files w) (dst @ [''SUMMARY.md'']) = index_after names \<longrightarrow>
              index = index_after (names @ [name]) \<and>
              entry_lines index (entryLine name config) = 1)"
proof -
  from known_doc_paths[OF known, of env dst] obtain cpath tpath dn where
    cp: "getContractPath env name = Inr cpath" and tp: "getTestPath env name = Inr tpath"
    and dp: "path_join dst [name @ ''.md''] = dst @ [dn]" and dn: "dn \<noteq> ''SUMMARY.md''"
    and ne: "cpath \<noteq> dst @ [dn]" "cpath \<noteq> dst @ [''SUMMARY.md'']"
            "tpath \<noteq> dst @ [dn]" "tpath \<noteq> dst @ [''SUMMARY.md'']"
    by blast
  let ?sp = "dst @ [''SUMMARY.md'']"
  let ?e = "entryLine name config"
  let ?s0 = "summary_before (files w) ?sp"
  from generateDocs_OkD[OF first known cp tp dp dn] obtain fs1 where
    dir: "if existsSync (files w) dst then fs1 = files w else mkdir_walk [] dst (files w) = Inr fs1"
    and d: "node_at fs1 dst = Some Dir"
    and c: "node_at fs1 cpath \<noteq> Some Dir" and t: "node_at fs1 tpath \<noteq> Some Dir"
    and f1: "files w1 =
            AList.update ?sp (File (with_entry (summary_before fs1 ?sp) ?e))
              (AList.update (dst @ [dn])
                 (File (render_doc config (source_text fs1 cpath) (source_text fs1 tpath))) fs1)"
    by blast
  have "map_of fs1 ?sp = map_of (files w) ?sp"
  proof (cases "existsSync (files w) dst")
    case True with dir show ?thesis by simp
  next
    case False
    with dir have "mkdir_walk [] dst (files w) = Inr fs1" by simp
    from mkdir_walk_other[OF this strip_prefix_longer] show ?thesis .
  qed
  then have before: "summary_before fs1 ?sp = ?s0"
    by (simp add: summary_before_def node_at_def)
  let ?doc = "render_doc config (source_text fs1 cpath) (source_text fs1 tpath)"
  let ?index = "with_entry ?s0 ?e"
  have dne: "dst \<noteq> dst @ [dn]" "dst \<noteq> ?sp" by auto
  have n1: "node_at (files w1) dst = Some Dir"
    "node_at (files w1) cpath = node_at fs1 cpath" "node_at (files w1) tpath = node_at fs1 tpath"
    "node_at (files w1) (dst @ [dn]) = Some (File ?doc)"
    "node_at (files w1) ?sp = Some (File ?index)"
    using d dn ne dne by (simp_all add: f1 before node_at_update node_at_Nil)
  have ex: "existsSync (files w1) dst" using n1(1) by (simp add: existsSync_def)
  have dir2: "if existsSync (files w1) dst then files w1 = files w1
              else mkdir_walk [] dst (files w1) = Inr (files w1)" using ex by simp
  have st: "source_text (files w1) cpath = source_text fs1 cpath"
    "source_text (files w1) tpath = source_text fs1 tpath"
    "summary_before (files w1) ?sp = ?index"
    using n1 by (simp_all add: source_text_def summary_before_def)
  have c2: "node_at (files w1) cpath \<noteq> Some Dir" "node_at (files w1) tpath \<noteq> Some Dir"
    "node_at (files w1) (dst @ [dn]) \<noteq> Some Dir" "node_at (files w1) ?sp \<noteq> Some Dir"
    using n1 c t by simp_all
  note I = generateDocs_OkI[OF known cp tp dp dn dir2 n1(1) c2]
  define w2 where "w2 = snd (generateDocs env name dst w1)"
  have run2: "generateDocs env name dst w1 = (Ok (), w2)"
    using I(1) by (simp add: w2_def run_pair)
  have f2: "files w2 = AList.update ?sp (File ?index) (AList.update (dst @ [dn]) (File ?doc) (files w1))"
    using I(2) by (simp add: w2_def st with_entry_idem)
  have same: "\<forall>p. map_of (files w2) p = map_of (files w1) p"
    using n1(4,5) by (auto simp: f2 update_conv' node_at_def split: if_splits)
  have t1: "file_text (files w1) (dst @ [dn]) = Some ?doc" "file_text (files w1) ?sp = Some ?index"
    using n1 by (simp_all add: file_text_def)
  have t2: "file_text (files w2) (dst @ [dn]) = Some ?doc" "file_text (files w2) ?sp = Some ?index"
    using t1 same by (simp_all add: file_text_def node_at_def)
  have inc: "includes_str ?index ?e" by (rule with_entry_includes)
  have one: "entry_lines ?index ?e = 1 \<longleftrightarrow>
      (if includes_str ?s0 ?e then entry_lines ?s0 ?e = 1
       else ?s0 = [] \<or> last ?s0 = CHR ''\<newline>'')"
    by (rule entry_lines_with_entry[OF known_entry_line[OF known]])
  have tool: "\<forall>names. ?s0 = index_after names \<longrightarrow>
      ?index = index_after (names @ [name]) \<and> entry_lines ?index ?e = 1"
  proof (intro allI impI)
    fix names assume a: "?s0 = index_after names"
    have "?index = index_after (names @ [name])"
      unfolding a by (rule index_after_known[OF known])
    then show "?index = index_after (names @ [name]) \<and> entry_lines ?index ?e = 1"
      using index_after_one_line[OF known, of names] by simp
  qed
  show ?thesis
    unfolding dp
    apply (rule exI[of _ w2], rule exI[of _ ?doc], rule exI[of _ ?index])
    apply (intro conjI)
    apply (rule run2 same t1 t2 refl inc one tool)+
    done
qed

theorem docs_generation_idempotent_witness:
  "js_get DOCS_CONFIG ''fhe-counter'' = Own counter_doc
   \<and> fst (generateDocs sample_env ''fhe-counter'' [''docs''] indexed_world) = Ok ()
   \<and> summary_before (files indexed_world) [''docs'', ''SUMMARY.md'']
       = index_after [''blind-auction'']
   \<and> (\<exists>w2 doc index.
         generateDocs sample_env ''fhe-counter'' [''docs'']
           (snd (generateDocs sample_env ''fhe-counter'' [''docs''] indexed_world)) = (Ok (), w2)
       \<and> file_text (files (snd (generateDocs sample_env ''fhe-counter'' [''docs''] indexed_world)))
            [''docs'', ''fhe-counter.md''] = Some doc
       \<and> file_text (files w2) [''docs'', ''fhe-counter.md''] = Some doc
       \<and> file_text (files w2) [''docs'', ''SUMMARY.md''] = Some index
       \<and> index = index_after [''blind-auction'', ''fhe-counter'']
       \<and> entry_lines index ''* [FHE Counter](fhe-counter.md)'' = 1)"
proof -
  have run: "fst (generateDocs sample_env ''fhe-counter'' [''docs''] indexed_world) = Ok ()"
    by code_simp
  have before: "summary_before (files indexed_world) ([''docs''] @ [''SUMMARY.md''])
                  = index_after [''blind-auction'']"
    by code_simp
  have p: "path_join [''docs''] [''fhe-counter'' @ ''.md''] = [''docs'', ''fhe-counter.md'']"
    by (simp add: path_join_def path_step_def)
  have e: "entryLine ''fhe-counter'' counter_doc = ''* [FHE Counter](fhe-counter.md)''"
    by (simp add: entryLine_def counter_doc_def)
  from docs_generation_idempotent [OF registered_doc run_pair[OF run]]
  obtain w2 doc index where r:
    "generateDocs sample_env ''fhe-counter'' [''docs'']
       (snd (generateDocs sample_env ''fhe-counter'' [''docs''] indexed_world)) = (Ok (), w2)"
    "file_text (files (snd (generateDocs sample_env ''fhe-counter'' [''docs''] indexed_world)))
       (path_join [''docs''] [''fhe-counter'' @ ''.md'']) = Some doc"
    "file_text (files w2) (path_join [''docs''] [''fhe-counter'' @ ''.md'']) = Some doc"
    "file_text (files w2) ([''docs''] @ [''SUMMARY.md'']) = Some index"
    "\<forall>names. summary_before (files indexed_world) ([''docs''] @ [''SUMMARY.md'']) = index_after names \<longrightarrow>
       index = index_after (names @ [''fhe-counter'']) \<and>
       entry_lines index (entryLine ''fhe-counter'' counter_doc) = 1"
    by blast
  from r(5) before have "index = index_after ([''blind-auction''] @ [''fhe-counter''])
       \<and> entry_lines index (entryLine ''fhe-counter'' counter_doc) = 1"
    by blast
  with r(1-4) have "\<exists>w2 doc index.
         generateDocs sample_env ''fhe-counter'' [''docs'']
           (snd (generateDocs sample_env ''fhe-counter'' [''docs''] indexed_world)) = (Ok (), w2)
       \<and> file_text (files (snd (generateDocs sample_env ''fhe-counter'' [''docs''] indexed_world)))
            [''docs'', ''fhe-counter.md''] = Some doc
       \<and> file_text (files w2) [''docs'', ''fhe-counter.md''] = Some doc
       \<and> file_text (files w2) [''docs'', ''SUMMARY.md''] = Some index
       \<and> index = index_after [''blind-auction'', ''fhe-counter'']
       \<and> entry_lines index ''* [FHE Counter](fhe-counter.md)'' = 1"
    unfolding p e by auto
  with registered_doc run before show ?thesis by simp
qed

section \<open>Missing artifacts\<close>




end
